theory Spec2Isabelle
  imports Main "HOL-Library.Sublist"
begin

section \<open>Constants and identifiers\<close>

text \<open>
  Discord identifiers (message, channel, user, webhook and guild ids) are strings in the
  program and TEXT columns in the database.  Timestamps are the integer millisecond
  readings of \<^verbatim>\<open>Date.now()\<close>.
\<close>

type_synonym snowflake = string
type_synonym timestamp = int

definition RATE_LIMIT_WINDOW :: int where
  "RATE_LIMIT_WINDOW = 60000"

definition RATE_LIMIT_MAX :: nat where
  "RATE_LIMIT_MAX = 3"


section \<open>The rate limiter\<close>

text \<open>
  \<^verbatim>\<open>isUserRateLimited\<close> is the same in all three variants of the bot.  The
  \<^verbatim>\<open>while\<close> loop shifts the head of the user's array as long as the array is not
  empty and its head is at or before \<^verbatim>\<open>currentTime - RATE_LIMIT_WINDOW\<close>.
\<close>

fun shift_expired :: "timestamp \<Rightarrow> timestamp list \<Rightarrow> timestamp list" where
  "shift_expired currentTime [] = []"
| "shift_expired currentTime (t # timestamps) =
     (if t \<le> currentTime - RATE_LIMIT_WINDOW then shift_expired currentTime timestamps
      else t # timestamps)"

text \<open>
  \<^verbatim>\<open>userMessageCounts\<close> is a JavaScript \<^verbatim>\<open>Map\<close> from user id to the array of
  timestamps; a user never seen has no entry and gets the empty array on the first check.
\<close>

type_synonym rate_map = "snowflake \<rightharpoonup> timestamp list"

definition window_of :: "rate_map \<Rightarrow> snowflake \<Rightarrow> timestamp list" where
  "window_of userMessageCounts userId =
     (case userMessageCounts userId of None \<Rightarrow> [] | Some timestamps \<Rightarrow> timestamps)"

definition isUserRateLimited :: "rate_map \<Rightarrow> snowflake \<Rightarrow> timestamp \<Rightarrow> bool \<times> rate_map" where
  "isUserRateLimited userMessageCounts userId currentTime =
     (let timestamps = shift_expired currentTime (window_of userMessageCounts userId) @ [currentTime]
      in (length timestamps > RATE_LIMIT_MAX, userMessageCounts(userId \<mapsto> timestamps)))"

text \<open>
  A sequence of checks, each by a user at a clock reading, applied one after the other
  to the map; and the order the clock gives every window: sorted, and nothing later than
  the last reading.
\<close>

fun check_all :: "rate_map \<Rightarrow> (snowflake \<times> timestamp) list \<Rightarrow> rate_map" where
  "check_all counts [] = counts"
| "check_all counts (check # checks) =
     check_all (snd (isUserRateLimited counts (fst check) (snd check))) checks"

definition windows_ordered :: "rate_map \<Rightarrow> timestamp \<Rightarrow> bool" where
  "windows_ordered counts bound =
     (\<forall>userId. sorted (window_of counts userId) \<and> (\<forall>t \<in> set (window_of counts userId). t \<le> bound))"

section \<open>The database tables\<close>

text \<open>
  Every table of the SQLite database has a TEXT PRIMARY KEY; a table is the list of its
  rows in insertion order, each row a pair of the key and the remaining columns.
  \<^verbatim>\<open>INSERT\<close> on a key that is present raises a constraint error (\<open>None\<close>),
  \<^verbatim>\<open>UPDATE ... WHERE key = ?\<close> and \<^verbatim>\<open>DELETE ... WHERE key = ?\<close> touch only
  the rows with that key, and \<^verbatim>\<open>INSERT OR REPLACE\<close> removes the old row first.
\<close>

definition db_get :: "('k \<times> 'v) list \<Rightarrow> 'k \<Rightarrow> 'v option" where
  "db_get tbl k = map_of tbl k"

definition db_insert :: "('k \<times> 'v) list \<Rightarrow> 'k \<Rightarrow> 'v \<Rightarrow> ('k \<times> 'v) list option" where
  "db_insert tbl k v = (if map_of tbl k = None then Some (tbl @ [(k, v)]) else None)"

definition db_delete :: "('k \<times> 'v) list \<Rightarrow> 'k \<Rightarrow> ('k \<times> 'v) list" where
  "db_delete tbl k = filter (\<lambda>row. fst row \<noteq> k) tbl"

definition db_update :: "('k \<times> 'v) list \<Rightarrow> 'k \<Rightarrow> 'v \<Rightarrow> ('k \<times> 'v) list" where
  "db_update tbl k v = map (\<lambda>row. if fst row = k then (k, v) else row) tbl"

definition db_replace :: "('k \<times> 'v) list \<Rightarrow> 'k \<Rightarrow> 'v \<Rightarrow> ('k \<times> 'v) list" where
  "db_replace tbl k v = db_delete tbl k @ [(k, v)]"

record webhook_creds =
  webhookId :: snowflake
  webhookToken :: string

record mapping_row = webhook_creds +
  webhookMessageId :: snowflake
  channelId :: snowflake

text \<open>
  The multi-channel variant of the bot keeps four tables (\<^verbatim>\<open>webhooks\<close>,
  \<^verbatim>\<open>relay_channels\<close>, \<^verbatim>\<open>message_map\<close>, \<^verbatim>\<open>bot_meta\<close>) and the in-memory
  \<^verbatim>\<open>userMessageCounts\<close>.  The only row of \<^verbatim>\<open>bot_meta\<close> the program writes is
  \<^verbatim>\<open>lastRotationTimestamp\<close>, whose value is \<^verbatim>\<open>Date.now().toString()\<close> and is read back
  with \<^verbatim>\<open>parseInt(value, 10)\<close>; the table holds the integer.
\<close>

record bot_state =
  webhooks :: "(snowflake \<times> webhook_creds) list"
  relay_channels :: "(snowflake \<times> snowflake) list"
  message_map :: "(snowflake \<times> mapping_row) list"
  bot_meta :: "(string \<times> timestamp) list"
  userMessageCounts :: rate_map

section \<open>Events, calls to Discord, and their outcomes\<close>

text \<open>
  A message as the handlers read it: its id, channel, author (id, bot flag, avatar),
  the author's guild member (administrator permission, display name), the content and
  the URL of the first attachment.
\<close>

record message =
  msg_id :: snowflake
  msg_channelId :: snowflake
  msg_author_id :: snowflake
  msg_author_bot :: bool
  msg_admin :: bool
  msg_displayName :: string
  msg_avatarURL :: string
  msg_content :: string
  msg_attachment :: "string option"

record interaction =
  int_isCommand :: bool
  int_commandName :: string
  int_subcommand :: string
  int_kanal :: snowflake
  int_guildId :: snowflake
  int_channelId :: snowflake
  int_user_id :: snowflake
  int_admin :: bool
  int_displayName :: string
  int_avatarURL :: string
  int_message :: "string option"
  int_attachment :: "string option"

text \<open>The payload of \<^verbatim>\<open>webhookClient.send\<close>; mentions are always suppressed.\<close>

record send_request =
  req_content :: "string option"
  req_username :: string
  req_avatarURL :: string
  req_files :: "string list"

text \<open>The ephemeral replies and the direct message, by the text the program sends.\<close>

datatype notice =
    NoPermission      \<comment> \<open>Du hast keine Berechtigung, diesen Befehl zu verwenden.\<close>
  | AlreadyRelay      \<comment> \<open>Der Kanal ... ist bereits ein Relay-Kanal.\<close>
  | ChannelAdded      \<comment> \<open>Der Kanal ... wurde erfolgreich als Relay-Kanal hinzugefuegt.\<close>
  | NotRelay          \<comment> \<open>Der Kanal ... ist kein Relay-Kanal.\<close>
  | ChannelRemoved    \<comment> \<open>Der Kanal ... wurde erfolgreich als Relay-Kanal entfernt.\<close>
  | WrongChannel      \<comment> \<open>Dieser Befehl kann in diesem Kanal nicht verwendet werden.\<close>
  | EmptyRequest      \<comment> \<open>Du musst entweder eine Nachricht oder einen Anhang angeben.\<close>
  | Sending           \<comment> \<open>Deine Nachricht wird gesendet...\<close>
  | TooFast           \<comment> \<open>Du sendest Befehle / Nachrichten zu schnell. ...\<close>

text \<open>
  What a handler does to the outside world, in the order it does it.  A call whose
  outcome the program looks at carries that outcome.
\<close>

datatype effect =
    DeleteOriginal snowflake bool                   \<comment> \<open>message.delete(); resolved?\<close>
  | RateCheck snowflake                             \<comment> \<open>isUserRateLimited(userId)\<close>
  | DirectMessage snowflake notice                  \<comment> \<open>author.send(...).catch(() => {})\<close>
  | Reply notice                                    \<comment> \<open>interaction.reply({ ..., ephemeral: true })\<close>
  | CreateWebhook snowflake                         \<comment> \<open>channel.createWebhook(...)\<close>
  | WebhookSend webhook_creds send_request "snowflake option"
                                                    \<comment> \<open>webhookClient.send(...); id of the sent message\<close>
  | InsertMapping snowflake                         \<comment> \<open>INSERT INTO message_map\<close>
  | WebhookEditMessage webhook_creds snowflake string
  | WebhookDeleteMessage webhook_creds snowflake bool
                                                    \<comment> \<open>webhookClient.deleteMessage(...); resolved?\<close>
  | DeleteMapping snowflake                         \<comment> \<open>DELETE FROM message_map\<close>
  | FetchChannel snowflake                          \<comment> \<open>client.channels.fetch(channelId)\<close>
  | WebhookDelete webhook_creds                     \<comment> \<open>oldWebhookClient.delete().catch(() => {})\<close>

text \<open>
  The answers of Discord during one relay: the clock at the rate check, whether
  \<^verbatim>\<open>message.delete()\<close> resolves, how often \<^verbatim>\<open>channel.createWebhook\<close> is rejected with
  code 10015 (Unknown Webhook) before its final answer, that final answer (the new
  webhook, or another error), and the answer of \<^verbatim>\<open>webhookClient.send\<close> (the id of the
  sent message, or an error).
\<close>

record relay_env =
  env_now :: timestamp
  env_delete_resolves :: bool
  env_unknown_webhook :: nat
  env_create :: "webhook_creds option"
  env_send :: "snowflake option"

section \<open>Resolving the channel's webhook and sending\<close>

text \<open>
  \<^verbatim>\<open>getOrCreateWebhook\<close> (plain-token variants).  A stored row is returned as it is.
  Otherwise a webhook is created and inserted.  An error with code 10015 deletes the
  channel's row and calls the function again; any other error returns \<^verbatim>\<open>null\<close>.
\<close>

primrec getOrCreateWebhook ::
  "(snowflake \<times> webhook_creds) list \<Rightarrow> snowflake \<Rightarrow> webhook_creds option \<Rightarrow> nat \<Rightarrow>
     webhook_creds option \<times> (snowflake \<times> webhook_creds) list \<times> effect list" where
  "getOrCreateWebhook tbl channel final 0 =
     (case db_get tbl channel of
        Some row \<Rightarrow> (Some row, tbl, [])
      | None \<Rightarrow>
         (case final of
            None \<Rightarrow> (None, tbl, [CreateWebhook channel])
          | Some newWebhook \<Rightarrow>
             (case db_insert tbl channel newWebhook of
                None \<Rightarrow> (None, tbl, [CreateWebhook channel])
              | Some tbl' \<Rightarrow> (Some newWebhook, tbl', [CreateWebhook channel]))))"
| "getOrCreateWebhook tbl channel final (Suc unknown) =
     (case db_get tbl channel of
        Some row \<Rightarrow> (Some row, tbl, [])
      | None \<Rightarrow>
         (case getOrCreateWebhook (db_delete tbl channel) channel final unknown of
            (result, tbl', fx) \<Rightarrow> (result, tbl', CreateWebhook channel # fx)))"

text \<open>
  \<^verbatim>\<open>sendWebhookMessage\<close> of the multi-channel variant returns the sent message with the
  credentials, or \<^verbatim>\<open>null\<close> when no webhook is available or the send fails.
\<close>

definition sendWebhookMessage ::
  "(snowflake \<times> webhook_creds) list \<Rightarrow> relay_env \<Rightarrow> snowflake \<Rightarrow> send_request \<Rightarrow>
     (snowflake \<times> webhook_creds) option \<times> (snowflake \<times> webhook_creds) list \<times> effect list" where
  "sendWebhookMessage tbl env channel req =
     (case getOrCreateWebhook tbl channel (env_create env) (env_unknown_webhook env) of
        (None, tbl', fx) \<Rightarrow> (None, tbl', fx)
      | (Some webhookCredentials, tbl', fx) \<Rightarrow>
         (case env_send env of
            None \<Rightarrow> (None, tbl', fx @ [WebhookSend webhookCredentials req None])
          | Some sentMessage \<Rightarrow>
             (Some (sentMessage, webhookCredentials), tbl',
              fx @ [WebhookSend webhookCredentials req (Some sentMessage)])))"

text \<open>\<^verbatim>\<open>message || undefined\<close> and \<^verbatim>\<open>attachment ? [attachment.url] : []\<close>.\<close>

definition truthy :: "string option \<Rightarrow> bool" where
  "truthy x = (case x of None \<Rightarrow> False | Some str \<Rightarrow> str \<noteq> [])"

definition make_request :: "string option \<Rightarrow> string option \<Rightarrow> string \<Rightarrow> string \<Rightarrow> send_request" where
  "make_request msg attachment username avatar =
     \<lparr> req_content = (if truthy msg then msg else None),
       req_username = username,
       req_avatarURL = avatar,
       req_files = (case attachment of None \<Rightarrow> [] | Some url \<Rightarrow> [url]) \<rparr>"

section \<open>The multi-channel variant: handlers\<close>

definition isRelayChannel :: "bot_state \<Rightarrow> snowflake \<Rightarrow> bool" where
  "isRelayChannel s channel = (db_get (relay_channels s) channel \<noteq> None)"

text \<open>
  \<^verbatim>\<open>client.on('messageCreate')\<close>.  Everything after the gate runs in one
  \<^verbatim>\<open>try\<close> block whose \<^verbatim>\<open>catch\<close> only logs: a rejected \<^verbatim>\<open>message.delete()\<close> or a
  failed \<^verbatim>\<open>INSERT\<close> ends the handler.
\<close>

definition on_messageCreate :: "bot_state \<Rightarrow> relay_env \<Rightarrow> message \<Rightarrow> bot_state \<times> effect list" where
  "on_messageCreate s env m =
     (if msg_author_bot m \<or> \<not> isRelayChannel s (msg_channelId m) then (s, [])
      else if \<not> env_delete_resolves env then (s, [DeleteOriginal (msg_id m) False])
      else
        (case (if \<not> msg_admin m
               then (case isUserRateLimited (userMessageCounts s) (msg_author_id m) (env_now env) of
                       (limited, counts) \<Rightarrow>
                         (limited, s\<lparr>userMessageCounts := counts\<rparr>, [RateCheck (msg_author_id m)]))
               else (False, s, [])) of
           (limited, s1, checked) \<Rightarrow>
             if limited
             then (s1, DeleteOriginal (msg_id m) True # checked @ [DirectMessage (msg_author_id m) TooFast])
             else
               (case sendWebhookMessage (webhooks s1) env (msg_channelId m)
                       (make_request (Some (msg_content m)) (msg_attachment m)
                          (msg_displayName m) (msg_avatarURL m)) of
                  (None, tbl, sent) \<Rightarrow>
                    (s1\<lparr>webhooks := tbl\<rparr>, DeleteOriginal (msg_id m) True # checked @ sent)
                | (Some (sentMessage, webhookCredentials), tbl, sent) \<Rightarrow>
                    (case db_insert (message_map s1) (msg_id m)
                            \<lparr> webhookId = webhookId webhookCredentials,
                              webhookToken = webhookToken webhookCredentials,
                              webhookMessageId = sentMessage,
                              channelId = msg_channelId m \<rparr> of
                       None \<Rightarrow>
                         (s1\<lparr>webhooks := tbl\<rparr>,
                          DeleteOriginal (msg_id m) True # checked @ sent @ [InsertMapping (msg_id m)])
                     | Some rows \<Rightarrow>
                         (s1\<lparr>webhooks := tbl, message_map := rows\<rparr>,
                          DeleteOriginal (msg_id m) True # checked @ sent @ [InsertMapping (msg_id m)])))))"

text \<open>\<^verbatim>\<open>client.on('messageUpdate')\<close>: a failed edit is logged, nothing else.\<close>

definition on_messageUpdate :: "bot_state \<Rightarrow> message \<Rightarrow> bot_state \<times> effect list" where
  "on_messageUpdate s newMessage =
     (if msg_author_bot newMessage then (s, [])
      else
        (case db_get (message_map s) (msg_id newMessage) of
           None \<Rightarrow> (s, [])
         | Some mapping \<Rightarrow>
             (s, [WebhookEditMessage
                    \<lparr> webhookId = webhookId mapping, webhookToken = webhookToken mapping \<rparr>
                    (webhookMessageId mapping) (msg_content newMessage)])))"

text \<open>
  \<^verbatim>\<open>client.on('messageDelete')\<close>: the row is deleted in the \<^verbatim>\<open>finally\<close> block, whether
  \<^verbatim>\<open>deleteMessage\<close> resolved (\<open>resolved\<close>) or not.
\<close>

definition on_messageDelete :: "bot_state \<Rightarrow> bool \<Rightarrow> message \<Rightarrow> bot_state \<times> effect list" where
  "on_messageDelete s resolved m =
     (case db_get (message_map s) (msg_id m) of
        None \<Rightarrow> (s, [])
      | Some mapping \<Rightarrow>
          (s\<lparr>message_map := db_delete (message_map s) (msg_id m)\<rparr>,
           [WebhookDeleteMessage
              \<lparr> webhookId = webhookId mapping, webhookToken = webhookToken mapping \<rparr>
              (webhookMessageId mapping) resolved,
            DeleteMapping (msg_id m)]))"

text \<open>
  \<^verbatim>\<open>client.on('interactionCreate')\<close>: the administrative \<^verbatim>\<open>/relay\<close> command and the
  \<^verbatim>\<open>/webhook\<close> command.  The handler saves no message mapping and never calls
  \<^verbatim>\<open>isUserRateLimited\<close>.
\<close>

definition on_interactionCreate :: "bot_state \<Rightarrow> relay_env \<Rightarrow> interaction \<Rightarrow> bot_state \<times> effect list" where
  "on_interactionCreate s env i =
     (if \<not> int_isCommand i then (s, [])
      else if int_commandName i = ''relay'' then
        (if \<not> int_admin i then (s, [Reply NoPermission])
         else if int_subcommand i = ''addchannel'' then
           (if db_get (relay_channels s) (int_kanal i) \<noteq> None then (s, [Reply AlreadyRelay])
            else
              (case db_insert (relay_channels s) (int_kanal i) (int_guildId i) of
                 None \<Rightarrow> (s, [])
               | Some rows \<Rightarrow> (s\<lparr>relay_channels := rows\<rparr>, [Reply ChannelAdded])))
         else if int_subcommand i = ''removechannel'' then
           (if db_get (relay_channels s) (int_kanal i) = None then (s, [Reply NotRelay])
            else (s\<lparr>relay_channels := db_delete (relay_channels s) (int_kanal i)\<rparr>,
                  [Reply ChannelRemoved]))
         else (s, []))
      else if int_commandName i = ''webhook'' then
        (if \<not> isRelayChannel s (int_channelId i) then (s, [Reply WrongChannel])
         else if \<not> truthy (int_message i) \<and> int_attachment i = None then (s, [Reply EmptyRequest])
         else
           (case sendWebhookMessage (webhooks s) env (int_channelId i)
                   (make_request (int_message i) (int_attachment i)
                      (int_displayName i) (int_avatarURL i)) of
              (result, tbl, sent) \<Rightarrow> (s\<lparr>webhooks := tbl\<rparr>, Reply Sending # sent)))
      else (s, []))"

section \<open>The multi-channel variant: rotation and its schedule\<close>

text \<open>
  The answers of Discord for one row of a rotation pass: \<^verbatim>\<open>client.channels.fetch\<close>
  resolves with the channel, resolves with nothing, or is rejected; deleting the old
  webhook resolves or not (the rejection is swallowed); \<^verbatim>\<open>channel.createWebhook\<close>
  resolves with the new webhook or is rejected.
\<close>

datatype fetch_outcome = FetchOk | FetchNull | FetchThrows

record rot_outcome =
  ro_fetch :: fetch_outcome
  ro_old_delete_resolves :: bool
  ro_create :: "webhook_creds option"

text \<open>
  The body of the \<^verbatim>\<open>for\<close> loop of \<^verbatim>\<open>rotateWebhooks\<close>: whatever is thrown inside the
  \<^verbatim>\<open>try\<close> block lands in the \<^verbatim>\<open>catch\<close>, which deletes the row of that channel.
\<close>

definition rotate_row ::
  "(snowflake \<Rightarrow> rot_outcome) \<Rightarrow> (snowflake \<times> webhook_creds) list \<Rightarrow> snowflake \<times> webhook_creds \<Rightarrow>
     (snowflake \<times> webhook_creds) list \<times> effect list" where
  "rotate_row answers tbl webhook =
     (case ro_fetch (answers (fst webhook)) of
        FetchOk \<Rightarrow>
          (case ro_create (answers (fst webhook)) of
             Some newWebhook \<Rightarrow>
               (db_update tbl (fst webhook) newWebhook,
                [FetchChannel (fst webhook), WebhookDelete (snd webhook), CreateWebhook (fst webhook)])
           | None \<Rightarrow>
               (db_delete tbl (fst webhook),
                [FetchChannel (fst webhook), WebhookDelete (snd webhook), CreateWebhook (fst webhook)]))
      | FetchNull \<Rightarrow> (db_delete tbl (fst webhook), [FetchChannel (fst webhook)])
      | FetchThrows \<Rightarrow> (db_delete tbl (fst webhook), [FetchChannel (fst webhook)]))"

fun rotate_rows ::
  "(snowflake \<Rightarrow> rot_outcome) \<Rightarrow> (snowflake \<times> webhook_creds) list \<Rightarrow> (snowflake \<times> webhook_creds) list \<Rightarrow>
     (snowflake \<times> webhook_creds) list \<times> effect list" where
  "rotate_rows answers tbl [] = (tbl, [])"
| "rotate_rows answers tbl (webhook # allWebhooks) =
     (case rotate_row answers tbl webhook of
        (tbl1, fx1) \<Rightarrow>
          (case rotate_rows answers tbl1 allWebhooks of
             (tbl2, fx2) \<Rightarrow> (tbl2, fx1 @ fx2)))"

text \<open>
  \<^verbatim>\<open>rotateWebhooks\<close>; \<open>stamp\<close> is the reading of \<^verbatim>\<open>Date.now()\<close> that is written
  as \<^verbatim>\<open>lastRotationTimestamp\<close>, on the early return of the empty table as well as after
  the loop.
\<close>

definition rotateWebhooks ::
  "bot_state \<Rightarrow> (snowflake \<Rightarrow> rot_outcome) \<Rightarrow> timestamp \<Rightarrow> bot_state \<times> effect list" where
  "rotateWebhooks s answers stamp =
     (if webhooks s = []
      then (s\<lparr>bot_meta := db_replace (bot_meta s) ''lastRotationTimestamp'' stamp\<rparr>, [])
      else
        (case rotate_rows answers (webhooks s) (webhooks s) of
           (tbl, fx) \<Rightarrow>
             (s\<lparr>webhooks := tbl,
                bot_meta := db_replace (bot_meta s) ''lastRotationTimestamp'' stamp\<rparr>, fx)))"









fun fetched_channel :: "effect \<Rightarrow> snowflake option" where
  "fetched_channel (FetchChannel channel) = Some channel"
| "fetched_channel other = None"

definition row_after_rotation :: "rot_outcome \<Rightarrow> webhook_creds option" where
  "row_after_rotation answer =
     (case ro_fetch answer of FetchOk \<Rightarrow> ro_create answer | FetchNull \<Rightarrow> None | FetchThrows \<Rightarrow> None)"

section \<open>The multi-channel variant: executions\<close>

datatype event =
    MessageCreate relay_env message
  | MessageUpdate message
  | MessageDelete bool message
  | InteractionCreate relay_env interaction
  | Rotation "snowflake \<Rightarrow> rot_outcome" timestamp

fun handle :: "bot_state \<Rightarrow> event \<Rightarrow> bot_state \<times> effect list" where
  "handle s (MessageCreate env m) = on_messageCreate s env m"
| "handle s (MessageUpdate m) = on_messageUpdate s m"
| "handle s (MessageDelete resolved m) = on_messageDelete s resolved m"
| "handle s (InteractionCreate env i) = on_interactionCreate s env i"
| "handle s (Rotation answers stamp) = rotateWebhooks s answers stamp"

fun run :: "bot_state \<Rightarrow> event list \<Rightarrow> bot_state" where
  "run s [] = s"
| "run s (e # es) = run (fst (handle s e)) es"

fun history :: "bot_state \<Rightarrow> event list \<Rightarrow> (event \<times> effect list) list" where
  "history s [] = []"
| "history s (e # es) = (e, snd (handle s e)) # history (fst (handle s e)) es"

definition initial_state :: bot_state where
  "initial_state =
     \<lparr> webhooks = [], relay_channels = [], message_map = [], bot_meta = [],
       userMessageCounts = Map.empty \<rparr>"

definition has_mapping :: "bot_state \<Rightarrow> snowflake \<Rightarrow> bool" where
  "has_mapping s original = (db_get (message_map s) original \<noteq> None)"

text \<open>
  The specification's side of the mapping invariant, read off the history of an
  execution: a mapping for \<open>original\<close> is expected when a relay send made for that
  original message reported success and no deletion of that original has been mirrored
  since.  \<open>b\<close> is the expectation at the start of the history.
\<close>

fun is_send_success :: "effect \<Rightarrow> bool" where
  "is_send_success (WebhookSend creds req (Some sentMessage)) = True"
| "is_send_success other = False"

fun is_mirrored_delete :: "effect \<Rightarrow> bool" where
  "is_mirrored_delete (WebhookDeleteMessage creds relayed resolved) = True"
| "is_mirrored_delete other = False"

fun mapping_expected :: "bool \<Rightarrow> (event \<times> effect list) list \<Rightarrow> snowflake \<Rightarrow> bool" where
  "mapping_expected b [] original = b"
| "mapping_expected b ((MessageCreate env m, fx) # h) original =
     mapping_expected (b \<or> (msg_id m = original \<and> list_ex is_send_success fx)) h original"
| "mapping_expected b ((MessageDelete resolved m, fx) # h) original =
     mapping_expected (b \<and> \<not> (msg_id m = original \<and> list_ex is_mirrored_delete fx)) h original"
| "mapping_expected b ((MessageUpdate m, fx) # h) original = mapping_expected b h original"
| "mapping_expected b ((InteractionCreate env i, fx) # h) original = mapping_expected b h original"
| "mapping_expected b ((Rotation answers stamp, fx) # h) original = mapping_expected b h original"

text \<open>The four steps of the relay pipeline, as they show in a handler's effects.\<close>

datatype pipeline_step = StepDelete | StepRateCheck | StepSend | StepMap

fun step_of :: "effect \<Rightarrow> pipeline_step option" where
  "step_of (DeleteOriginal original resolved) = Some StepDelete"
| "step_of (RateCheck user) = Some StepRateCheck"
| "step_of (WebhookSend creds req result) = Some StepSend"
| "step_of (InsertMapping original) = Some StepMap"
| "step_of other = None"

definition pipeline_steps :: "effect list \<Rightarrow> pipeline_step list" where
  "pipeline_steps fx = List.map_filter step_of fx"

section \<open>The allow-list variant: handlers\<close>

text \<open>
  \<^verbatim>\<open>bot.js\<close> gates on the static list \<^verbatim>\<open>ALLOWED_CHANNEL_IDS\<close>, keeps only the
  \<^verbatim>\<open>webhooks\<close> table and the rate-limit map, and has no edit or delete handler.
\<close>

record al_state =
  al_webhooks :: "(snowflake \<times> webhook_creds) list"
  al_userMessageCounts :: rate_map

definition al_rate_gate ::
  "al_state \<Rightarrow> bool \<Rightarrow> snowflake \<Rightarrow> timestamp \<Rightarrow> bool \<times> al_state \<times> effect list" where
  "al_rate_gate s admin user currentTime =
     (if \<not> admin
      then (case isUserRateLimited (al_userMessageCounts s) user currentTime of
              (limited, counts) \<Rightarrow> (limited, s\<lparr>al_userMessageCounts := counts\<rparr>, [RateCheck user]))
      else (False, s, []))"

definition al_on_interactionCreate ::
  "snowflake list \<Rightarrow> al_state \<Rightarrow> relay_env \<Rightarrow> interaction \<Rightarrow> al_state \<times> effect list" where
  "al_on_interactionCreate ALLOWED_CHANNEL_IDS s env i =
     (if \<not> int_isCommand i \<or> int_commandName i \<noteq> ''webhook'' then (s, [])
      else if int_channelId i \<notin> set ALLOWED_CHANNEL_IDS then (s, [Reply WrongChannel])
      else if \<not> truthy (int_message i) \<and> int_attachment i = None then (s, [Reply EmptyRequest])
      else
        (case al_rate_gate s (int_admin i) (int_user_id i) (env_now env) of
           (limited, s1, checked) \<Rightarrow>
             if limited then (s1, checked @ [Reply TooFast])
             else
               (case sendWebhookMessage (al_webhooks s1) env (int_channelId i)
                       (make_request (int_message i) (int_attachment i)
                          (int_displayName i) (int_avatarURL i)) of
                  (result, tbl, sent) \<Rightarrow>
                    (s1\<lparr>al_webhooks := tbl\<rparr>, checked @ Reply Sending # sent))))"

definition al_on_messageCreate ::
  "snowflake list \<Rightarrow> al_state \<Rightarrow> relay_env \<Rightarrow> message \<Rightarrow> al_state \<times> effect list" where
  "al_on_messageCreate ALLOWED_CHANNEL_IDS s env m =
     (if msg_author_bot m \<or> msg_channelId m \<notin> set ALLOWED_CHANNEL_IDS then (s, [])
      else
        (case al_rate_gate s (msg_admin m) (msg_author_id m) (env_now env) of
           (limited, s1, checked) \<Rightarrow>
             if limited
             then (s1, checked @ [DirectMessage (msg_author_id m) TooFast,
                                  DeleteOriginal (msg_id m) (env_delete_resolves env)])
             else if msg_content m = [] \<and> msg_attachment m = None then (s1, checked)
             else
               (case sendWebhookMessage (al_webhooks s1) env (msg_channelId m)
                       (make_request (Some (msg_content m)) (msg_attachment m)
                          (msg_displayName m) (msg_avatarURL m)) of
                  (result, tbl, sent) \<Rightarrow>
                    (s1\<lparr>al_webhooks := tbl\<rparr>,
                     checked @ sent @ [DeleteOriginal (msg_id m) (env_delete_resolves env)]))))"

section \<open>The encrypted-token variant\<close>

text \<open>
  The second allow-list variant stores the webhook token encrypted.  Node's
  \<^verbatim>\<open>crypto\<close> module and \<^verbatim>\<open>Buffer\<close> are not code of the repository: the UTF-8 and
  base64 conversions and AES-256-GCM are parameters (\<open>gcm_encrypt key iv plaintext\<close>
  gives the ciphertext and the authentication tag; \<open>gcm_decrypt key iv authTag ciphertext\<close>
  gives the plaintext, or \<open>None\<close> where \<^verbatim>\<open>setAuthTag\<close> or \<^verbatim>\<open>decipher.final()\<close> throws).
  A buffer is a list of bytes; \<open>iv\<close> stands for \<^verbatim>\<open>crypto.randomBytes(12)\<close>.
\<close>

type_synonym buffer = "char list"

definition ENCRYPTED_TOKEN_PREFIX :: string where
  "ENCRYPTED_TOKEN_PREFIX = ''enc:''"

datatype decryption_error = DecryptionError (isPlaintext: bool)

record crypto =
  utf8_encode :: "string \<Rightarrow> buffer"
  utf8_decode :: "buffer \<Rightarrow> string"
  base64_encode :: "buffer \<Rightarrow> string"
  base64_decode :: "string \<Rightarrow> buffer"
  gcm_encrypt :: "buffer \<Rightarrow> buffer \<Rightarrow> buffer \<Rightarrow> buffer \<times> buffer"
  gcm_decrypt :: "buffer \<Rightarrow> buffer \<Rightarrow> buffer \<Rightarrow> buffer \<Rightarrow> buffer option"

definition encryptWebhookToken :: "crypto \<Rightarrow> buffer \<Rightarrow> buffer \<Rightarrow> string \<Rightarrow> string" where
  "encryptWebhookToken lib encryptionKey iv token =
     (case gcm_encrypt lib encryptionKey iv (utf8_encode lib token) of
        (ciphertext, authTag) \<Rightarrow>
          ENCRYPTED_TOKEN_PREFIX @ base64_encode lib (iv @ authTag @ ciphertext))"

definition decryptWebhookToken :: "crypto \<Rightarrow> buffer \<Rightarrow> string \<Rightarrow> decryption_error + string" where
  "decryptWebhookToken lib encryptionKey storedToken =
     (if \<not> prefix ENCRYPTED_TOKEN_PREFIX storedToken then Inl (DecryptionError True)
      else
        (let data = base64_decode lib (drop (length ENCRYPTED_TOKEN_PREFIX) storedToken);
             iv = take 12 data;
             authTag = take (28 - 12) (drop 12 data);
             ciphertext = drop 28 data
         in case gcm_decrypt lib encryptionKey iv authTag ciphertext of
              None \<Rightarrow> Inl (DecryptionError False)
            | Some decrypted \<Rightarrow> Inr (utf8_decode lib decrypted)))"

text \<open>
  What the program relies on from the library: base64 decoding inverts encoding, the
  authentication tag has 16 bytes, and decrypting with the key, nonce and tag of an
  encryption gives back its plaintext.
\<close>

definition crypto_contract :: "crypto \<Rightarrow> bool" where
  "crypto_contract lib =
     ((\<forall>data. base64_decode lib (base64_encode lib data) = data) \<and>
      (\<forall>key iv plaintext.
         length (snd (gcm_encrypt lib key iv plaintext)) = 16 \<and>
         gcm_decrypt lib key iv (snd (gcm_encrypt lib key iv plaintext))
           (fst (gcm_encrypt lib key iv plaintext)) = Some plaintext))"

text \<open>
  \<^verbatim>\<open>getOrCreateWebhook\<close> of the encrypted variant.  Without a row, a webhook is created
  and stored with its token encrypted (\<open>enc_createWebhook\<close>; code 10015 deletes the row
  and tries again).  With a row, the token is decrypted; a plaintext token is used as it
  is and re-encrypted in place by \<^verbatim>\<open>ensureEncryptedToken\<close>; any other decryption error
  deletes the row and starts over.
\<close>

primrec enc_createWebhook ::
  "crypto \<Rightarrow> buffer \<Rightarrow> buffer \<Rightarrow> (snowflake \<times> webhook_creds) list \<Rightarrow> snowflake \<Rightarrow>
     webhook_creds option \<Rightarrow> nat \<Rightarrow>
     webhook_creds option \<times> (snowflake \<times> webhook_creds) list \<times> effect list" where
  "enc_createWebhook lib key iv tbl channel final 0 =
     (case final of
        None \<Rightarrow> (None, tbl, [CreateWebhook channel])
      | Some newWebhook \<Rightarrow>
         (case db_insert tbl channel
                 (newWebhook\<lparr>webhookToken := encryptWebhookToken lib key iv (webhookToken newWebhook)\<rparr>) of
            None \<Rightarrow> (None, tbl, [CreateWebhook channel])
          | Some tbl' \<Rightarrow> (Some newWebhook, tbl', [CreateWebhook channel])))"
| "enc_createWebhook lib key iv tbl channel final (Suc unknown) =
     (case enc_createWebhook lib key iv (db_delete tbl channel) channel final unknown of
        (result, tbl', fx) \<Rightarrow> (result, tbl', CreateWebhook channel # fx))"

definition enc_getOrCreateWebhook ::
  "crypto \<Rightarrow> buffer \<Rightarrow> buffer \<Rightarrow> (snowflake \<times> webhook_creds) list \<Rightarrow> snowflake \<Rightarrow>
     webhook_creds option \<Rightarrow> nat \<Rightarrow>
     webhook_creds option \<times> (snowflake \<times> webhook_creds) list \<times> effect list" where
  "enc_getOrCreateWebhook lib key iv tbl channel final unknown =
     (case db_get tbl channel of
        None \<Rightarrow> enc_createWebhook lib key iv tbl channel final unknown
      | Some row \<Rightarrow>
         (case decryptWebhookToken lib key (webhookToken row) of
            Inr webhookToken' \<Rightarrow> (Some (row\<lparr>webhookToken := webhookToken'\<rparr>), tbl, [])
          | Inl error \<Rightarrow>
              if isPlaintext error
              then (Some row,
                    db_update tbl channel
                      (row\<lparr>webhookToken := encryptWebhookToken lib key iv (webhookToken row)\<rparr>), [])
              else enc_createWebhook lib key iv (db_delete tbl channel) channel final unknown))"

text \<open>
  \<^verbatim>\<open>rotateWebhooks\<close> of the encrypted variant: the same loop, with the token resolved as
  above (an undecryptable token deletes the row and continues with the next one) and the
  new token stored encrypted.  \<open>ivs\<close> gives, per channel, the nonces of the two
  encryptions.  This variant keeps no watermark.
\<close>

definition db_modify :: "('k \<times> 'v) list \<Rightarrow> 'k \<Rightarrow> ('v \<Rightarrow> 'v) \<Rightarrow> ('k \<times> 'v) list" where
  "db_modify tbl k f = map (\<lambda>row. if fst row = k then (k, f (snd row)) else row) tbl"

definition enc_resolve_token ::
  "crypto \<Rightarrow> buffer \<Rightarrow> buffer \<Rightarrow> (snowflake \<times> webhook_creds) list \<Rightarrow> snowflake \<times> webhook_creds \<Rightarrow>
     (string \<times> (snowflake \<times> webhook_creds) list) option" where
  "enc_resolve_token lib key iv tbl webhook =
     (case decryptWebhookToken lib key (webhookToken (snd webhook)) of
        Inr webhookToken' \<Rightarrow> Some (webhookToken', tbl)
      | Inl error \<Rightarrow>
          if isPlaintext error
          then Some (webhookToken (snd webhook),
                     db_modify tbl (fst webhook)
                       (\<lambda>row. row\<lparr>webhookToken :=
                          encryptWebhookToken lib key iv (webhookToken (snd webhook))\<rparr>))
          else None)"

definition enc_rotate_row ::
  "crypto \<Rightarrow> buffer \<Rightarrow> (snowflake \<Rightarrow> buffer \<times> buffer) \<Rightarrow> (snowflake \<Rightarrow> rot_outcome) \<Rightarrow>
     (snowflake \<times> webhook_creds) list \<Rightarrow> snowflake \<times> webhook_creds \<Rightarrow>
     (snowflake \<times> webhook_creds) list \<times> effect list" where
  "enc_rotate_row lib key ivs answers tbl webhook =
     (case ro_fetch (answers (fst webhook)) of
        FetchOk \<Rightarrow>
          (case enc_resolve_token lib key (fst (ivs (fst webhook))) tbl webhook of
             None \<Rightarrow> (db_delete tbl (fst webhook), [FetchChannel (fst webhook)])
           | Some (webhookToken', tbl1) \<Rightarrow>
               (case ro_create (answers (fst webhook)) of
                  Some newWebhook \<Rightarrow>
                    (db_update tbl1 (fst webhook)
                       (newWebhook\<lparr>webhookToken :=
                          encryptWebhookToken lib key (snd (ivs (fst webhook))) (webhookToken newWebhook)\<rparr>),
                     [FetchChannel (fst webhook),
                      WebhookDelete ((snd webhook)\<lparr>webhookToken := webhookToken'\<rparr>),
                      CreateWebhook (fst webhook)])
                | None \<Rightarrow>
                    (db_delete tbl1 (fst webhook),
                     [FetchChannel (fst webhook),
                      WebhookDelete ((snd webhook)\<lparr>webhookToken := webhookToken'\<rparr>),
                      CreateWebhook (fst webhook)])))
      | FetchNull \<Rightarrow> (db_delete tbl (fst webhook), [FetchChannel (fst webhook)])
      | FetchThrows \<Rightarrow> (db_delete tbl (fst webhook), [FetchChannel (fst webhook)]))"

fun enc_rotate_rows ::
  "crypto \<Rightarrow> buffer \<Rightarrow> (snowflake \<Rightarrow> buffer \<times> buffer) \<Rightarrow> (snowflake \<Rightarrow> rot_outcome) \<Rightarrow>
     (snowflake \<times> webhook_creds) list \<Rightarrow> (snowflake \<times> webhook_creds) list \<Rightarrow>
     (snowflake \<times> webhook_creds) list \<times> effect list" where
  "enc_rotate_rows lib key ivs answers tbl [] = (tbl, [])"
| "enc_rotate_rows lib key ivs answers tbl (webhook # allWebhooks) =
     (case enc_rotate_row lib key ivs answers tbl webhook of
        (tbl1, fx1) \<Rightarrow>
          (case enc_rotate_rows lib key ivs answers tbl1 allWebhooks of
             (tbl2, fx2) \<Rightarrow> (tbl2, fx1 @ fx2)))"

definition enc_rotateWebhooks ::
  "crypto \<Rightarrow> buffer \<Rightarrow> (snowflake \<Rightarrow> buffer \<times> buffer) \<Rightarrow> (snowflake \<Rightarrow> rot_outcome) \<Rightarrow>
     (snowflake \<times> webhook_creds) list \<Rightarrow> (snowflake \<times> webhook_creds) list \<times> effect list" where
  "enc_rotateWebhooks lib key ivs answers tbl =
     (if tbl = [] then (tbl, []) else enc_rotate_rows lib key ivs answers tbl tbl)"

text \<open>The row a channel is left with after its turn in this loop.\<close>

definition undecryptable :: "crypto \<Rightarrow> buffer \<Rightarrow> string \<Rightarrow> bool" where
  "undecryptable lib key storedToken =
     (case decryptWebhookToken lib key storedToken of
        Inl error \<Rightarrow> \<not> isPlaintext error
      | Inr webhookToken' \<Rightarrow> False)"

definition enc_row_after_rotation ::
  "crypto \<Rightarrow> buffer \<Rightarrow> buffer \<Rightarrow> rot_outcome \<Rightarrow> webhook_creds \<Rightarrow> webhook_creds option" where
  "enc_row_after_rotation lib key iv answer old =
     (case ro_fetch answer of
        FetchOk \<Rightarrow>
          if undecryptable lib key (webhookToken old) then None
          else (case ro_create answer of
                  None \<Rightarrow> None
                | Some newWebhook \<Rightarrow>
                    Some (newWebhook\<lparr>webhookToken :=
                            encryptWebhookToken lib key iv (webhookToken newWebhook)\<rparr>))
      | FetchNull \<Rightarrow> None
      | FetchThrows \<Rightarrow> None)"

section \<open>Example inputs\<close>

text \<open>
  Concrete inputs for the closed theorems: an administrator enabling and disabling
  channel \<open>c1\<close>, a non-administrator's message \<open>m1\<close> in that channel, and answers of
  Discord under which every call succeeds.
\<close>

definition ex_admin_add :: interaction where
  "ex_admin_add =
     \<lparr> int_isCommand = True, int_commandName = ''relay'', int_subcommand = ''addchannel'',
       int_kanal = ''c1'', int_guildId = ''g1'', int_channelId = ''c0'', int_user_id = ''admin'',
       int_admin = True, int_displayName = ''Admin'', int_avatarURL = ''a.png'',
       int_message = None, int_attachment = None \<rparr>"

definition ex_admin_remove :: interaction where
  "ex_admin_remove = ex_admin_add\<lparr>int_subcommand := ''removechannel''\<rparr>"

definition ex_command :: interaction where
  "ex_command =
     \<lparr> int_isCommand = True, int_commandName = ''webhook'', int_subcommand = [],
       int_kanal = [], int_guildId = ''g1'', int_channelId = ''c1'', int_user_id = ''u1'',
       int_admin = False, int_displayName = ''User'', int_avatarURL = ''u.png'',
       int_message = Some ''hi'', int_attachment = None \<rparr>"

definition ex_message :: message where
  "ex_message =
     \<lparr> msg_id = ''m1'', msg_channelId = ''c1'', msg_author_id = ''u1'', msg_author_bot = False,
       msg_admin = False, msg_displayName = ''User'', msg_avatarURL = ''u.png'',
       msg_content = ''hello'', msg_attachment = None \<rparr>"

definition ex_env :: relay_env where
  "ex_env =
     \<lparr> env_now = 1000, env_delete_resolves = True, env_unknown_webhook = 0,
       env_create = Some \<lparr> webhookId = ''w1'', webhookToken = ''t1'' \<rparr>,
       env_send = Some ''r1'' \<rparr>"

definition ex_al_state :: al_state where
  "ex_al_state = \<lparr> al_webhooks = [], al_userMessageCounts = Map.empty \<rparr>"

text \<open>
  A state in which channel \<open>c1\<close> is enabled and has a webhook, and user \<open>u1\<close> has three
  timestamps in the window; the same for the allow-list variant.
\<close>

definition ex_busy_state :: bot_state where
  "ex_busy_state =
     \<lparr> webhooks = [(''c1'', \<lparr> webhookId = ''w1'', webhookToken = ''t1'' \<rparr>)],
       relay_channels = [(''c1'', ''g1'')], message_map = [], bot_meta = [],
       userMessageCounts = [''u1'' \<mapsto> [100, 200, 300]] \<rparr>"

definition ex_busy_al_state :: al_state where
  "ex_busy_al_state =
     \<lparr> al_webhooks = [(''c1'', \<lparr> webhookId = ''w1'', webhookToken = ''t1'' \<rparr>)],
       al_userMessageCounts = [''u1'' \<mapsto> [100, 200, 300]] \<rparr>"

text \<open>
  Three stored webhooks and a watermark of 1000; answers under which creating the
  replacement fails for \<open>c1\<close>, fetching the channel fails for \<open>c2\<close>, and only deleting
  the old webhook fails for \<open>c3\<close>; the same state with a watermark of 3000000000,
  far ahead of the clock; clock readings shortly after 2000.
\<close>

definition ex_rot_state :: bot_state where
  "ex_rot_state =
     \<lparr> webhooks = [(''c1'', \<lparr> webhookId = ''w1'', webhookToken = ''t1'' \<rparr>),
                   (''c2'', \<lparr> webhookId = ''w2'', webhookToken = ''t2'' \<rparr>),
                   (''c3'', \<lparr> webhookId = ''w3'', webhookToken = ''t3'' \<rparr>)],
       relay_channels = [], message_map = [], bot_meta = [(''lastRotationTimestamp'', 1000)],
       userMessageCounts = Map.empty \<rparr>"

definition ex_answers :: "snowflake \<Rightarrow> rot_outcome" where
  "ex_answers channel =
     (if channel = ''c1''
      then \<lparr> ro_fetch = FetchOk, ro_old_delete_resolves = True, ro_create = None \<rparr>
      else if channel = ''c2''
      then \<lparr> ro_fetch = FetchThrows, ro_old_delete_resolves = True, ro_create = None \<rparr>
      else \<lparr> ro_fetch = FetchOk, ro_old_delete_resolves = False,
             ro_create = Some \<lparr> webhookId = ''w9'', webhookToken = ''t9'' \<rparr> \<rparr>)"



text \<open>
  A stand-in for the library that meets the contract (it is no cipher: the ciphertext is
  the reversed plaintext and the tag is cut from key and nonce), a table with an
  undecryptable and a plaintext token, and answers under which every call succeeds.
\<close>

definition ex_crypto :: crypto where
  "ex_crypto =
     \<lparr> utf8_encode = (\<lambda>str. str), utf8_decode = (\<lambda>data. data),
       base64_encode = (\<lambda>data. data), base64_decode = (\<lambda>str. str),
       gcm_encrypt = (\<lambda>key iv plaintext.
          (rev plaintext, take 16 (key @ iv @ replicate 16 (CHR ''#'')))),
       gcm_decrypt = (\<lambda>key iv authTag ciphertext.
          if authTag = take 16 (key @ iv @ replicate 16 (CHR ''#'')) then Some (rev ciphertext)
          else None) \<rparr>"

definition ex_enc_table :: "(snowflake \<times> webhook_creds) list" where
  "ex_enc_table =
     [(''c1'', \<lparr> webhookId = ''w1'', webhookToken = ''enc:garbage'' \<rparr>),
      (''c2'', \<lparr> webhookId = ''w2'', webhookToken = ''t2'' \<rparr>)]"

definition ex_answers_ok :: "snowflake \<Rightarrow> rot_outcome" where
  "ex_answers_ok channel =
     \<lparr> ro_fetch = FetchOk, ro_old_delete_resolves = True,
       ro_create = Some \<lparr> webhookId = ''w9'', webhookToken = ''t9'' \<rparr> \<rparr>"

definition ex_ivs :: "snowflake \<Rightarrow> buffer \<times> buffer" where
  "ex_ivs channel = (''abcdefghijkl'', ''mnopqrstuvwx'')"

section \<open>Properties of the rate limiter\<close>

lemma shift_expired_dropWhile:
  "shift_expired now ts = dropWhile (\<lambda>t. t \<le> now - RATE_LIMIT_WINDOW) ts"
  by (induction ts) auto

lemma shift_expired_keeps_fresh:
  "\<forall>t \<in> set recent. now - RATE_LIMIT_WINDOW < t \<Longrightarrow>
     shift_expired now (old @ recent) = shift_expired now old @ recent"
proof (induction old)
  case Nil
  then show ?case by (cases recent) auto
next
  case (Cons a old)
  then show ?case by simp
qed

lemma shift_expired_length_le: "length (shift_expired now ts) \<le> length ts"
  by (induction ts) auto

lemma shift_expired_drops_old_prefix:
  assumes "\<forall>t \<in> set old. t \<le> now - RATE_LIMIT_WINDOW"
  shows "shift_expired now (old @ rest) = shift_expired now rest"
  using assms by (induction old) auto

lemma window_of_upd: "window_of (m(u \<mapsto> ts)) u = ts"
  by (simp add: window_of_def)

lemma limited_iff_oldest_of_last_three_fresh:
  assumes "window_of counts userId = older @ [t1, t2, t3]"
    and "sorted (older @ [t1, t2, t3])"
  shows "fst (isUserRateLimited counts userId now) \<longleftrightarrow> now - RATE_LIMIT_WINDOW < t1"
proof (cases "now - RATE_LIMIT_WINDOW < t1")
  case True
  from assms(2) have "t1 \<le> t2" "t2 \<le> t3"
    by (auto simp: sorted_append)
  with True have "\<forall>t \<in> set [t1, t2, t3]. now - RATE_LIMIT_WINDOW < t"
    by auto
  then have "shift_expired now (older @ [t1, t2, t3]) = shift_expired now older @ [t1, t2, t3]"
    by (rule shift_expired_keeps_fresh)
  with True assms(1) show ?thesis
    by (simp add: isUserRateLimited_def RATE_LIMIT_MAX_def)
next
  case False
  from assms(2) have "\<forall>t \<in> set (older @ [t1]). t \<le> t1"
    by (auto simp: sorted_append)
  with False have "\<forall>t \<in> set (older @ [t1]). t \<le> now - RATE_LIMIT_WINDOW"
    by auto
  then have "shift_expired now ((older @ [t1]) @ [t2, t3]) = shift_expired now [t2, t3]"
    by (rule shift_expired_drops_old_prefix)
  moreover have "length (shift_expired now [t2, t3]) \<le> 2"
    using shift_expired_length_le [of now "[t2, t3]"] by simp
  ultimately have "length (shift_expired now (older @ [t1, t2, t3])) \<le> 2"
    by simp
  with False assms(1) show ?thesis
    by (simp add: isUserRateLimited_def RATE_LIMIT_MAX_def)
qed

lemma shift_expired_set: "set (shift_expired now ts) \<subseteq> set ts"
  by (induction ts) auto

lemma shift_expired_sorted: "sorted ts \<Longrightarrow> sorted (shift_expired now ts)"
  by (induction ts) auto

lemma window_of_other: "v \<noteq> u \<Longrightarrow> window_of (m(u \<mapsto> ts)) v = window_of m v"
  by (simp add: window_of_def)

lemma check_keeps_order:
  assumes "windows_ordered counts bound" and "bound \<le> now"
  shows "windows_ordered (snd (isUserRateLimited counts userId now)) now"
proof -
  have "sorted (window_of (snd (isUserRateLimited counts userId now)) v)
      \<and> (\<forall>t \<in> set (window_of (snd (isUserRateLimited counts userId now)) v). t \<le> now)" for v
  proof (cases "v = userId")
    case True
    have s: "sorted (shift_expired now (window_of counts userId))"
      using assms(1) by (simp add: windows_ordered_def shift_expired_sorted)
    have b: "\<forall>t \<in> set (shift_expired now (window_of counts userId)). t \<le> now"
      using assms shift_expired_set [of now "window_of counts userId"]
      by (fastforce simp: windows_ordered_def)
    from s b True show ?thesis
      by (simp add: isUserRateLimited_def window_of_upd sorted_append)
  next
    case False
    with assms show ?thesis
      by (fastforce simp: isUserRateLimited_def window_of_other windows_ordered_def)
  qed
  then show ?thesis
    by (simp add: windows_ordered_def)
qed

lemma check_all_keeps_order:
  "windows_ordered counts bound \<Longrightarrow> sorted (bound # map snd checks) \<Longrightarrow>
     windows_ordered (check_all counts checks) (last (bound # map snd checks))"
proof (induction checks arbitrary: counts bound)
  case Nil
  then show ?case by simp
next
  case (Cons check checks)
  from Cons.prems have b: "bound \<le> snd check" and s: "sorted (snd check # map snd checks)"
    by auto
  from check_keeps_order [OF Cons.prems(1) b]
  have "windows_ordered (snd (isUserRateLimited counts (fst check) (snd check))) (snd check)" .
  from Cons.IH [OF this s] show ?case
    by simp
qed

lemma check_all_from_empty_sorted:
  assumes "sorted (map snd checks)"
  shows "sorted (window_of (check_all Map.empty checks) userId)"
proof (cases checks)
  case Nil
  then show ?thesis by (simp add: window_of_def)
next
  case (Cons check rest)
  have "windows_ordered Map.empty (snd check)"
    by (simp add: windows_ordered_def window_of_def)
  moreover from assms Cons have "sorted (snd check # map snd checks)"
    by simp
  ultimately have "windows_ordered (check_all Map.empty checks) (last (snd check # map snd checks))"
    by (rule check_all_keeps_order)
  then show ?thesis
    by (simp add: windows_ordered_def)
qed

text \<open>
  C3 (as amended).  Let checks be made in clock order, starting from the empty map, and
  let the user's window then end with the three most recently recorded timestamps
  \<open>t1 \<le> t2 \<le> t3\<close>, recorded by accepted and by rejected checks alike.  A further event
  at time \<open>now\<close> is rejected exactly when the oldest of those three is still inside the
  trailing window, \<open>now - 60000 < t1\<close>: after three recorded events a fourth within the
  window is rejected, and the first event that arrives once the oldest of the last three
  recorded timestamps has left the window (\<open>t1 \<le> now - 60000\<close>) is accepted.
\<close>

theorem rate_limit_by_last_three_recorded:
  assumes "sorted (map snd checks)"
    and "window_of (check_all Map.empty checks) userId = older @ [t1, t2, t3]"
  shows "fst (isUserRateLimited (check_all Map.empty checks) userId now) \<longleftrightarrow>
           now - RATE_LIMIT_WINDOW < t1"
proof -
  from check_all_from_empty_sorted [OF assms(1), of userId] assms(2)
  have "sorted (older @ [t1, t2, t3])"
    by simp
  with assms(2) show ?thesis
    by (rule limited_iff_oldest_of_last_three_fresh)
qed

text \<open>
  The claim as stated fails: after the checks at 0, 1000 and 2000 the fourth at 3000 is
  rejected and recorded; at 60000 the oldest of the first three has left the window, yet
  the event is rejected, because 1000, 2000 and 3000 are still in it.
\<close>

theorem rate_limit_by_last_three_recorded_counterexample:
  "\<not> fst (isUserRateLimited (check_all Map.empty []) ''u'' 0)
   \<and> \<not> fst (isUserRateLimited (check_all Map.empty [(''u'', 0)]) ''u'' 1000)
   \<and> \<not> fst (isUserRateLimited (check_all Map.empty [(''u'', 0), (''u'', 1000)]) ''u'' 2000)
   \<and> fst (isUserRateLimited (check_all Map.empty [(''u'', 0), (''u'', 1000), (''u'', 2000)]) ''u'' 3000)
   \<and> 0 \<le> 60000 - RATE_LIMIT_WINDOW
   \<and> window_of (check_all Map.empty [(''u'', 0), (''u'', 1000), (''u'', 2000), (''u'', 3000)]) ''u''
       = [0, 1000, 2000, 3000]
   \<and> fst (isUserRateLimited
        (check_all Map.empty [(''u'', 0), (''u'', 1000), (''u'', 2000), (''u'', 3000)]) ''u'' 60000)"
  by (simp add: isUserRateLimited_def window_of_def RATE_LIMIT_WINDOW_def RATE_LIMIT_MAX_def)

theorem rate_limit_by_last_three_recorded_witness:
  "fst (isUserRateLimited (check_all Map.empty [(''u'', 0), (''u'', 1000), (''u'', 2000)]) ''u'' 3000)
   \<and> fst (isUserRateLimited (check_all Map.empty [(''u'', 0), (''u'', 1000), (''u'', 2000)]) ''u'' 59999)
   \<and> \<not> fst (isUserRateLimited (check_all Map.empty [(''u'', 0), (''u'', 1000), (''u'', 2000)]) ''u'' 60000)
   \<and> fst (isUserRateLimited
        (check_all Map.empty [(''u'', 0), (''u'', 1000), (''u'', 2000), (''u'', 3000)]) ''u'' 60999)
   \<and> \<not> fst (isUserRateLimited
        (check_all Map.empty [(''u'', 0), (''u'', 1000), (''u'', 2000), (''u'', 3000)]) ''u'' 61000)"
proof -
  have s3: "sorted (map snd [(''u'', 0::int), (''u'', 1000), (''u'', 2000)])"
    and s4: "sorted (map snd [(''u'', 0::int), (''u'', 1000), (''u'', 2000), (''u'', 3000)])"
    by simp_all
  have w3: "window_of (check_all Map.empty [(''u'', 0), (''u'', 1000), (''u'', 2000)]) ''u''
      = [] @ [0, 1000, 2000]"
    by (simp add: isUserRateLimited_def window_of_def RATE_LIMIT_WINDOW_def)
  have w4: "window_of (check_all Map.empty [(''u'', 0), (''u'', 1000), (''u'', 2000), (''u'', 3000)]) ''u''
      = [0] @ [1000, 2000, 3000]"
    by (simp add: isUserRateLimited_def window_of_def RATE_LIMIT_WINDOW_def)
  show ?thesis
    using rate_limit_by_last_three_recorded [OF s3 w3, of 3000]
      rate_limit_by_last_three_recorded [OF s3 w3, of 59999]
      rate_limit_by_last_three_recorded [OF s3 w3, of 60000]
      rate_limit_by_last_three_recorded [OF s4 w4, of 60999]
      rate_limit_by_last_three_recorded [OF s4 w4, of 61000]
    by (simp add: RATE_LIMIT_WINDOW_def)
qed

text \<open>
  C9.  A check first trims the timestamps at or before \<open>now - 60000\<close> from the head of the
  user's window, then appends \<open>now\<close>, and only then compares the length with the maximum.
  The timestamp is therefore recorded also when the check answers "limited", and it is
  still in the window, and counted, at every later check made less than 60000 ms after it.
\<close>

theorem rate_check_records_event_before_decision:
  assumes "isUserRateLimited counts userId now = (limited, counts')"
  shows "window_of counts' userId =
           dropWhile (\<lambda>t. t \<le> now - RATE_LIMIT_WINDOW) (window_of counts userId) @ [now]
       \<and> limited = (RATE_LIMIT_MAX < length (window_of counts' userId))
       \<and> now \<in> set (window_of counts' userId)
       \<and> (\<forall>later. later - RATE_LIMIT_WINDOW < now \<longrightarrow>
             now \<in> set (shift_expired later (window_of counts' userId))
           \<and> now \<in> set (window_of (snd (isUserRateLimited counts' userId later)) userId))"
proof -
  let ?w = "shift_expired now (window_of counts userId)"
  from assms have c: "counts' = counts(userId \<mapsto> ?w @ [now])"
    and l: "limited = (RATE_LIMIT_MAX < length (?w @ [now]))"
    by (auto simp: isUserRateLimited_def Let_def)
  have w: "window_of counts' userId = ?w @ [now]"
    by (simp add: c window_of_upd)
  have keep: "shift_expired later (?w @ [now]) = shift_expired later ?w @ [now]"
    if "later - RATE_LIMIT_WINDOW < now" for later
    using that shift_expired_keeps_fresh [of "[now]" later ?w] by simp
  show ?thesis
    using l keep by (simp add: w shift_expired_dropWhile [symmetric] isUserRateLimited_def window_of_upd)
qed

theorem rate_check_records_event_before_decision_witness:
  "fst (isUserRateLimited [''u'' \<mapsto> [0, 1000, 2000]] ''u'' 3000) \<and>
   window_of (snd (isUserRateLimited [''u'' \<mapsto> [0, 1000, 2000]] ''u'' 3000)) ''u''
     = [0, 1000, 2000, 3000] \<and>
   shift_expired 61000 (window_of (snd (isUserRateLimited [''u'' \<mapsto> [0, 1000, 2000]] ''u'' 3000)) ''u'')
     = [2000, 3000] \<and>
   3000 \<in> set (window_of (snd (isUserRateLimited
      (snd (isUserRateLimited [''u'' \<mapsto> [0, 1000, 2000]] ''u'' 3000)) ''u'' 61000)) ''u'')"
proof -
  have e: "isUserRateLimited [''u'' \<mapsto> [0, 1000, 2000]] ''u'' 3000 =
     (fst (isUserRateLimited [''u'' \<mapsto> [0, 1000, 2000]] ''u'' 3000),
      snd (isUserRateLimited [''u'' \<mapsto> [0, 1000, 2000]] ''u'' 3000))"
    by simp
  have l: "(61000::int) - RATE_LIMIT_WINDOW < 3000"
    by (simp add: RATE_LIMIT_WINDOW_def)
  have v: "window_of [''u'' \<mapsto> [0::int, 1000, 2000]] ''u'' = [0, 1000, 2000]"
    by (simp add: window_of_def)
  from rate_check_records_event_before_decision [OF e] l
  have "window_of (snd (isUserRateLimited [''u'' \<mapsto> [0, 1000, 2000]] ''u'' 3000)) ''u''
          = dropWhile (\<lambda>t. t \<le> 3000 - RATE_LIMIT_WINDOW) (window_of [''u'' \<mapsto> [0, 1000, 2000]] ''u'') @ [3000]"
    and "fst (isUserRateLimited [''u'' \<mapsto> [0, 1000, 2000]] ''u'' 3000) =
          (RATE_LIMIT_MAX < length (window_of (snd (isUserRateLimited [''u'' \<mapsto> [0, 1000, 2000]] ''u'' 3000)) ''u''))"
    and "3000 \<in> set (window_of (snd (isUserRateLimited
      (snd (isUserRateLimited [''u'' \<mapsto> [0, 1000, 2000]] ''u'' 3000)) ''u'' 61000)) ''u'')"
    by blast+
  then show ?thesis
    by (simp add: v RATE_LIMIT_WINDOW_def RATE_LIMIT_MAX_def)
qed


section \<open>Properties of the tables and of sending\<close>

lemma db_get_delete: "db_get (db_delete tbl k) k' = (if k' = k then None else db_get tbl k')"
  by (induction tbl) (auto simp: db_get_def db_delete_def)

lemma db_get_insert:
  "db_insert tbl k v = Some tbl' \<Longrightarrow> db_get tbl' k' = (if k' = k then Some v else db_get tbl k')"
  by (auto simp: db_insert_def db_get_def map_add_def split: if_splits option.splits)

lemma db_insert_None: "(db_insert tbl k v = None) = (db_get tbl k \<noteq> None)"
  by (simp add: db_insert_def db_get_def)

lemma getOrCreateWebhook_effects:
  "getOrCreateWebhook tbl channel final n = (r, tbl', fx) \<Longrightarrow> set fx \<subseteq> {CreateWebhook channel}"
proof (induction n arbitrary: tbl r tbl' fx)
  case 0
  then show ?case by (auto split: option.splits)
next
  case (Suc n)
  then show ?case by (fastforce split: option.splits prod.splits)
qed

lemma getOrCreateWebhook_no_send:
  "getOrCreateWebhook tbl channel final n = (r, tbl', fx) \<Longrightarrow> \<not> list_ex is_send_success fx"
  using getOrCreateWebhook_effects [of tbl channel final n r tbl' fx]
  by (auto simp: list_ex_iff)

lemma sendWebhookMessage_result:
  "sendWebhookMessage tbl env channel req = (r, tbl', fx) \<Longrightarrow> (r \<noteq> None) = list_ex is_send_success fx"
  by (auto simp: sendWebhookMessage_def split: option.splits prod.splits dest: getOrCreateWebhook_no_send)

lemma on_messageCreate_mapping:
  "has_mapping (fst (on_messageCreate s env m)) original =
     (has_mapping s original \<or>
      (msg_id m = original \<and> list_ex is_send_success (snd (on_messageCreate s env m))))"
  by (auto simp: has_mapping_def on_messageCreate_def db_get_insert db_insert_None
      split: option.splits prod.splits if_splits dest: sendWebhookMessage_result)


lemma on_messageDelete_mapping:
  "has_mapping (fst (on_messageDelete s resolved m)) original =
     (has_mapping s original \<and>
      \<not> (msg_id m = original \<and> list_ex is_mirrored_delete (snd (on_messageDelete s resolved m))))"
  by (auto simp: has_mapping_def on_messageDelete_def db_get_delete split: option.splits)

lemma on_messageUpdate_state: "fst (on_messageUpdate s m) = s"
  by (simp add: on_messageUpdate_def split: option.splits)

lemma on_interactionCreate_message_map:
  "has_mapping (fst (on_interactionCreate s env i)) original = has_mapping s original"
  by (simp add: has_mapping_def on_interactionCreate_def split: option.splits prod.splits)

lemma rotateWebhooks_message_map:
  "has_mapping (fst (rotateWebhooks s answers stamp)) original = has_mapping s original"
  by (simp add: has_mapping_def rotateWebhooks_def split: prod.splits)

lemma mapping_invariant:
  "(has_mapping s original) = b \<Longrightarrow>
   has_mapping (run s evs) original = mapping_expected b (history s evs) original"
proof (induction evs arbitrary: s b)
  case Nil
  then show ?case by simp
next
  case (Cons e evs)
  show ?case
  proof (cases e)
    case (MessageCreate env m)
    have "has_mapping (fst (handle s e)) original =
        (b \<or> (msg_id m = original \<and> list_ex is_send_success (snd (handle s e))))"
      using Cons.prems by (simp add: MessageCreate on_messageCreate_mapping)
    from Cons.IH [OF this] show ?thesis
      by (simp add: MessageCreate)
  next
    case (MessageUpdate m)
    have "has_mapping (fst (handle s e)) original = b"
      using Cons.prems by (simp add: MessageUpdate on_messageUpdate_state)
    from Cons.IH [OF this] show ?thesis
      by (simp add: MessageUpdate)
  next
    case (MessageDelete resolved m)
    have "has_mapping (fst (handle s e)) original =
        (b \<and> \<not> (msg_id m = original \<and> list_ex is_mirrored_delete (snd (handle s e))))"
      using Cons.prems by (simp add: MessageDelete on_messageDelete_mapping)
    from Cons.IH [OF this] show ?thesis
      by (simp add: MessageDelete)
  next
    case (InteractionCreate env i)
    have "has_mapping (fst (handle s e)) original = b"
      using Cons.prems by (simp add: InteractionCreate on_interactionCreate_message_map)
    from Cons.IH [OF this] show ?thesis
      by (simp add: InteractionCreate)
  next
    case (Rotation answers stamp)
    have "has_mapping (fst (handle s e)) original = b"
      using Cons.prems by (simp add: Rotation rotateWebhooks_message_map)
    from Cons.IH [OF this] show ?thesis
      by (simp add: Rotation)
  qed
qed



section \<open>The message mapping\<close>

lemmas ex_defs = ex_admin_add_def ex_message_def ex_env_def initial_state_def

lemmas db_defs = db_get_def db_insert_def db_delete_def db_update_def db_replace_def

lemmas relay_defs = on_messageCreate_def sendWebhookMessage_def isRelayChannel_def make_request_def
  truthy_def isUserRateLimited_def window_of_def RATE_LIMIT_MAX_def RATE_LIMIT_WINDOW_def

lemma getOrCreateWebhook_member:
  "getOrCreateWebhook tbl channel final n = (r, tbl', fx) \<Longrightarrow> e \<in> set fx \<Longrightarrow> e = CreateWebhook channel"
  using getOrCreateWebhook_effects [of tbl channel final n r tbl' fx] by auto

lemma sendWebhookMessage_Some:
  "sendWebhookMessage tbl env channel req = (Some (sentMessage, creds), tbl', fx) \<Longrightarrow>
     \<exists>creates. fx = creates @ [WebhookSend creds req (Some sentMessage)]
        \<and> set creates \<subseteq> {CreateWebhook channel}"
  by (auto simp: sendWebhookMessage_def split: option.splits prod.splits
      dest: getOrCreateWebhook_effects)

lemma sendWebhookMessage_no_insert:
  "sendWebhookMessage tbl env channel req = (r, tbl', fx) \<Longrightarrow> InsertMapping x \<notin> set fx"
  by (auto simp: sendWebhookMessage_def split: option.splits prod.splits
      dest: getOrCreateWebhook_member)

lemma on_messageCreate_insert_last:
  assumes "InsertMapping original \<in> set (snd (on_messageCreate s env m))"
  shows "\<exists>before creds req sentMessage.
       snd (on_messageCreate s env m) =
         before @ [WebhookSend creds req (Some sentMessage), InsertMapping (msg_id m)]
       \<and> original = msg_id m \<and> InsertMapping original \<notin> set before"
proof -
  obtain limited s1 checked where g:
    "(if \<not> msg_admin m
      then (case isUserRateLimited (userMessageCounts s) (msg_author_id m) (env_now env) of
              (limited, counts) \<Rightarrow>
                (limited, s\<lparr>userMessageCounts := counts\<rparr>, [RateCheck (msg_author_id m)]))
      else (False, s, [])) = (limited, s1, checked)"
    by (metis prod_cases3)
  then have c: "InsertMapping original \<notin> set checked"
    by (auto split: if_splits prod.splits)
  obtain r tbl sent where w:
    "sendWebhookMessage (webhooks s1) env (msg_channelId m)
       (make_request (Some (msg_content m)) (msg_attachment m) (msg_displayName m) (msg_avatarURL m))
     = (r, tbl, sent)"
    by (metis prod_cases3)
  from assms g w c sendWebhookMessage_no_insert [OF w, of original]
  obtain sentMessage creds where r: "r = Some (sentMessage, creds)" and o: "original = msg_id m"
    and fx: "snd (on_messageCreate s env m) =
        DeleteOriginal (msg_id m) True # checked @ sent @ [InsertMapping (msg_id m)]"
    by (auto simp: on_messageCreate_def split: if_splits option.splits)
  from sendWebhookMessage_Some [OF w [unfolded r]] obtain creates where
    s: "sent = creates @ [WebhookSend creds
          (make_request (Some (msg_content m)) (msg_attachment m) (msg_displayName m) (msg_avatarURL m))
          (Some sentMessage)]" and cr: "set creates \<subseteq> {CreateWebhook (msg_channelId m)}"
    by blast
  have "InsertMapping original \<notin> set (DeleteOriginal (msg_id m) True # checked @ creates)"
    using c cr by auto
  then show ?thesis
    using fx s o by (intro exI [of _ "DeleteOriginal (msg_id m) True # checked @ creates"] exI) simp
qed

lemma on_messageDelete_removes:
  "\<not> has_mapping (fst (on_messageDelete s resolved m)) (msg_id m)"
  by (simp add: on_messageDelete_mapping) (simp add: on_messageDelete_def has_mapping_def split: option.splits)

text \<open>
  C1.  At every point of an execution (after every handled event), a mapping row exists
  for an original message id exactly when a relay send made for that original message
  has reported success and no deletion of that original has been mirrored since.  The
  row is inserted only directly after a \<^verbatim>\<open>webhookClient.send\<close> that resolved with a sent
  message, and after \<^verbatim>\<open>messageDelete\<close> no row is left for the deleted message, whether
  deleting the relayed copy resolved or not.
\<close>

theorem mapping_exists_iff_relay_succeeded:
  "has_mapping (run s evs) original =
     mapping_expected (has_mapping s original) (history s evs) original
   \<and> (InsertMapping original \<in> set (snd (on_messageCreate s env m)) \<longrightarrow>
        (\<exists>before creds req sentMessage.
           snd (on_messageCreate s env m) =
             before @ [WebhookSend creds req (Some sentMessage), InsertMapping (msg_id m)]
           \<and> original = msg_id m \<and> InsertMapping original \<notin> set before))
   \<and> \<not> has_mapping (fst (on_messageDelete s resolved m)) (msg_id m)"
  using mapping_invariant [OF refl, where s = s and original = original and evs = evs]
    on_messageCreate_insert_last [of original s env m]
    on_messageDelete_removes [of s resolved m]
  by blast

theorem mapping_exists_iff_relay_succeeded_witness:
  "has_mapping (run initial_state
      [InteractionCreate ex_env ex_admin_add, MessageCreate ex_env ex_message]) ''m1''
   \<and> snd (on_messageCreate (run initial_state [InteractionCreate ex_env ex_admin_add]) ex_env ex_message) =
       [DeleteOriginal ''m1'' True, RateCheck ''u1'', CreateWebhook ''c1'',
        WebhookSend \<lparr> webhookId = ''w1'', webhookToken = ''t1'' \<rparr>
          \<lparr> req_content = Some ''hello'', req_username = ''User'', req_avatarURL = ''u.png'',
            req_files = [] \<rparr> (Some ''r1''),
        InsertMapping ''m1'']
   \<and> \<not> has_mapping (run initial_state
      [InteractionCreate ex_env ex_admin_add, MessageCreate ex_env ex_message,
       MessageDelete False ex_message]) ''m1''
   \<and> \<not> has_mapping (run initial_state
      [InteractionCreate ex_env ex_admin_add,
       MessageCreate (ex_env\<lparr>env_send := None\<rparr>) ex_message]) ''m1''
   \<and> \<not> has_mapping (fst (on_messageDelete (run initial_state
      [InteractionCreate ex_env ex_admin_add, MessageCreate ex_env ex_message]) False ex_message)) ''m1''"
proof -
  have e1: "mapping_expected (has_mapping initial_state ''m1'') (history initial_state
      [InteractionCreate ex_env ex_admin_add, MessageCreate ex_env ex_message]) ''m1''"
    by (simp add: ex_defs relay_defs db_defs on_interactionCreate_def on_messageDelete_def has_mapping_def)
  have e2: "\<not> mapping_expected (has_mapping initial_state ''m1'') (history initial_state
      [InteractionCreate ex_env ex_admin_add, MessageCreate ex_env ex_message,
       MessageDelete False ex_message]) ''m1''"
    by (simp add: ex_defs relay_defs db_defs on_interactionCreate_def on_messageDelete_def has_mapping_def)
  have e3: "\<not> mapping_expected (has_mapping initial_state ''m1'') (history initial_state
      [InteractionCreate ex_env ex_admin_add,
       MessageCreate (ex_env\<lparr>env_send := None\<rparr>) ex_message]) ''m1''"
    by (simp add: ex_defs relay_defs db_defs on_interactionCreate_def on_messageDelete_def has_mapping_def)
  have e4: "snd (on_messageCreate (run initial_state [InteractionCreate ex_env ex_admin_add]) ex_env ex_message) =
       [DeleteOriginal ''m1'' True, RateCheck ''u1'', CreateWebhook ''c1'',
        WebhookSend \<lparr> webhookId = ''w1'', webhookToken = ''t1'' \<rparr>
          \<lparr> req_content = Some ''hello'', req_username = ''User'', req_avatarURL = ''u.png'',
            req_files = [] \<rparr> (Some ''r1''),
        InsertMapping ''m1'']"
    by (simp add: ex_defs relay_defs db_defs on_interactionCreate_def)
  have e5: "msg_id ex_message = ''m1''"
    by (simp add: ex_defs)
  show ?thesis
    using e1 e2 e3 e4
      mapping_exists_iff_relay_succeeded [where s = initial_state and original = "''m1''" and
        evs = "[InteractionCreate ex_env ex_admin_add, MessageCreate ex_env ex_message]"]
      mapping_exists_iff_relay_succeeded [where s = initial_state and original = "''m1''" and
        evs = "[InteractionCreate ex_env ex_admin_add, MessageCreate ex_env ex_message,
                MessageDelete False ex_message]"]
      mapping_exists_iff_relay_succeeded [where s = initial_state and original = "''m1''" and
        evs = "[InteractionCreate ex_env ex_admin_add,
                MessageCreate (ex_env\<lparr>env_send := None\<rparr>) ex_message]"]
      mapping_exists_iff_relay_succeeded [where m = ex_message and resolved = False and
        s = "run initial_state [InteractionCreate ex_env ex_admin_add, MessageCreate ex_env ex_message]"]
    unfolding e5 by blast
qed


section \<open>The order of the relay pipeline\<close>

lemma pipeline_steps_append:
  "pipeline_steps (xs @ ys) = pipeline_steps xs @ pipeline_steps ys"
  by (simp add: pipeline_steps_def map_filter_def)

lemma pipeline_steps_Nil: "pipeline_steps [] = []"
  by (simp add: pipeline_steps_def map_filter_def)

lemma pipeline_steps_Cons:
  "pipeline_steps (e # fx) = (case step_of e of None \<Rightarrow> pipeline_steps fx | Some st \<Rightarrow> st # pipeline_steps fx)"
  by (simp add: pipeline_steps_def map_filter_def split: option.splits)

lemma pipeline_steps_creates:
  "set fx \<subseteq> {CreateWebhook channel} \<Longrightarrow> pipeline_steps fx = []"
  by (induction fx) (auto simp: pipeline_steps_Nil pipeline_steps_Cons)

lemma pipeline_steps_send:
  assumes "sendWebhookMessage tbl env channel req = (r, tbl', fx)"
  shows "pipeline_steps fx = [] \<and> r = None \<and> \<not> list_ex is_send_success fx
       \<or> pipeline_steps fx = [StepSend] \<and> (r \<noteq> None) = list_ex is_send_success fx"
proof -
  obtain c tbl1 creates where g:
    "getOrCreateWebhook tbl channel (env_create env) (env_unknown_webhook env) = (c, tbl1, creates)"
    by (metis prod_cases3)
  then have p: "pipeline_steps creates = []"
    using getOrCreateWebhook_effects pipeline_steps_creates by blast
  from sendWebhookMessage_result [OF assms] have r: "(r \<noteq> None) = list_ex is_send_success fx" .
  from assms g p r show ?thesis
    by (auto simp: sendWebhookMessage_def pipeline_steps_append pipeline_steps_Cons pipeline_steps_Nil
        split: option.splits)
qed

lemma on_messageCreate_steps:
  assumes "\<not> msg_author_bot m" and "isRelayChannel s (msg_channelId m)"
  shows "pipeline_steps (snd (on_messageCreate s env m)) \<in>
           {[StepDelete], [StepDelete, StepRateCheck], [StepDelete, StepSend],
            [StepDelete, StepRateCheck, StepSend], [StepDelete, StepSend, StepMap],
            [StepDelete, StepRateCheck, StepSend, StepMap]}"
    and "StepMap \<in> set (pipeline_steps (snd (on_messageCreate s env m))) \<longrightarrow>
           list_ex is_send_success (snd (on_messageCreate s env m))"
    and "\<exists>rest. snd (on_messageCreate s env m) =
           DeleteOriginal (msg_id m) (env_delete_resolves env) # rest"
proof -
  obtain limited s1 checked where g:
    "(if \<not> msg_admin m
      then (case isUserRateLimited (userMessageCounts s) (msg_author_id m) (env_now env) of
              (limited, counts) \<Rightarrow>
                (limited, s\<lparr>userMessageCounts := counts\<rparr>, [RateCheck (msg_author_id m)]))
      else (False, s, [])) = (limited, s1, checked)"
    by (metis prod_cases3)
  then have c: "checked = [] \<or> checked = [RateCheck (msg_author_id m)]"
    by (auto split: if_splits prod.splits)
  obtain r tbl sent where w:
    "sendWebhookMessage (webhooks s1) env (msg_channelId m)
       (make_request (Some (msg_content m)) (msg_attachment m) (msg_displayName m) (msg_avatarURL m))
     = (r, tbl, sent)"
    by (metis prod_cases3)
  note p = pipeline_steps_send [OF w]
  from assms g w c p
  show "pipeline_steps (snd (on_messageCreate s env m)) \<in>
           {[StepDelete], [StepDelete, StepRateCheck], [StepDelete, StepSend],
            [StepDelete, StepRateCheck, StepSend], [StepDelete, StepSend, StepMap],
            [StepDelete, StepRateCheck, StepSend, StepMap]}"
    by (auto simp: on_messageCreate_def pipeline_steps_append pipeline_steps_Cons pipeline_steps_Nil
        split: option.splits)
  from assms g w c p
  show "StepMap \<in> set (pipeline_steps (snd (on_messageCreate s env m))) \<longrightarrow>
           list_ex is_send_success (snd (on_messageCreate s env m))"
    by (auto simp: on_messageCreate_def pipeline_steps_append pipeline_steps_Cons pipeline_steps_Nil
        split: option.splits)
  from assms g w
  show "\<exists>rest. snd (on_messageCreate s env m) =
           DeleteOriginal (msg_id m) (env_delete_resolves env) # rest"
    by (auto simp: on_messageCreate_def split: option.splits)
qed


lemma al_on_messageCreate_steps:
  assumes "\<not> msg_author_bot m" and "msg_channelId m \<in> set ALLOWED_CHANNEL_IDS"
  shows "pipeline_steps (snd (al_on_messageCreate ALLOWED_CHANNEL_IDS a env m)) \<in>
           {[], [StepRateCheck], [StepDelete], [StepRateCheck, StepDelete],
            [StepSend, StepDelete], [StepRateCheck, StepSend, StepDelete]}"
proof -
  obtain limited a1 checked where g:
    "al_rate_gate a (msg_admin m) (msg_author_id m) (env_now env) = (limited, a1, checked)"
    by (metis prod_cases3)
  then have c: "checked = [] \<or> checked = [RateCheck (msg_author_id m)]"
    by (auto simp: al_rate_gate_def split: if_splits prod.splits)
  obtain r tbl sent where w:
    "sendWebhookMessage (al_webhooks a1) env (msg_channelId m)
       (make_request (Some (msg_content m)) (msg_attachment m) (msg_displayName m) (msg_avatarURL m))
     = (r, tbl, sent)"
    by (metis prod_cases3)
  note p = pipeline_steps_send [OF w]
  from assms g w c p show ?thesis
    by (auto simp: al_on_messageCreate_def pipeline_steps_append pipeline_steps_Cons pipeline_steps_Nil)
qed

text \<open>
  C2 (as amended).  In the multi-channel variant, for every message that passes the gate
  the call that deletes the original message is the first effect of the handler,
  whatever the later calls answer; the pipeline steps that follow are, in this order and
  each only if the handler has not ended before, the rate check (non-administrators
  only), the webhook send, and the insertion of the mapping, which happens only after a
  send that reported success.  In the allow-list variant the order is rate check, send,
  deletion of the original, and no mapping is ever recorded.
\<close>

theorem relay_pipeline_order_by_variant:
  assumes "\<not> msg_author_bot m"
  shows "(isRelayChannel s (msg_channelId m) \<longrightarrow>
           (\<exists>rest. snd (on_messageCreate s env m) =
              DeleteOriginal (msg_id m) (env_delete_resolves env) # rest)
         \<and> pipeline_steps (snd (on_messageCreate s env m)) \<in>
             {[StepDelete], [StepDelete, StepRateCheck], [StepDelete, StepSend],
              [StepDelete, StepRateCheck, StepSend], [StepDelete, StepSend, StepMap],
              [StepDelete, StepRateCheck, StepSend, StepMap]}
         \<and> subseq (pipeline_steps (snd (on_messageCreate s env m)))
              [StepDelete, StepRateCheck, StepSend, StepMap]
         \<and> (StepMap \<in> set (pipeline_steps (snd (on_messageCreate s env m))) \<longrightarrow>
              list_ex is_send_success (snd (on_messageCreate s env m))))
       \<and> (msg_channelId m \<in> set ALLOWED_CHANNEL_IDS \<longrightarrow>
           pipeline_steps (snd (al_on_messageCreate ALLOWED_CHANNEL_IDS a env m)) \<in>
             {[], [StepRateCheck], [StepDelete], [StepRateCheck, StepDelete],
              [StepSend, StepDelete], [StepRateCheck, StepSend, StepDelete]})"
proof -
  have "subseq (pipeline_steps (snd (on_messageCreate s env m)))
              [StepDelete, StepRateCheck, StepSend, StepMap]"
    if "isRelayChannel s (msg_channelId m)"
    using on_messageCreate_steps(1) [OF assms that, of env] by auto
  then show ?thesis
    using on_messageCreate_steps [OF assms, of s env] al_on_messageCreate_steps [OF assms, of ALLOWED_CHANNEL_IDS a env]
    by blast
qed

lemma steps_eval: "pipeline_steps (e # fx) =
    (case step_of e of None \<Rightarrow> pipeline_steps fx | Some st \<Rightarrow> st # pipeline_steps fx)"
  "pipeline_steps [] = []"
  by (simp_all add: pipeline_steps_Cons pipeline_steps_Nil)

text \<open>
  The claim as stated fails in the allow-list variant: for a message accepted by its
  gate the original is deleted last, after the rate check and the send.
\<close>

theorem relay_pipeline_order_counterexample:
  "\<not> msg_author_bot ex_message \<and> msg_channelId ex_message \<in> set [''c1'']
   \<and> snd (al_on_messageCreate [''c1''] ex_al_state ex_env ex_message) =
       [RateCheck ''u1'', CreateWebhook ''c1'',
        WebhookSend \<lparr> webhookId = ''w1'', webhookToken = ''t1'' \<rparr>
          \<lparr> req_content = Some ''hello'', req_username = ''User'', req_avatarURL = ''u.png'',
            req_files = [] \<rparr> (Some ''r1''),
        DeleteOriginal ''m1'' True]
   \<and> pipeline_steps (snd (al_on_messageCreate [''c1''] ex_al_state ex_env ex_message)) =
       [StepRateCheck, StepSend, StepDelete]
   \<and> \<not> subseq (pipeline_steps (snd (al_on_messageCreate [''c1''] ex_al_state ex_env ex_message)))
         [StepDelete, StepRateCheck, StepSend, StepMap]"
  by (simp add: ex_message_def ex_env_def ex_al_state_def al_on_messageCreate_def al_rate_gate_def
      sendWebhookMessage_def make_request_def truthy_def isUserRateLimited_def window_of_def
      RATE_LIMIT_MAX_def RATE_LIMIT_WINDOW_def db_defs steps_eval)

theorem relay_pipeline_order_by_variant_witness:
  "pipeline_steps (snd (on_messageCreate (run initial_state [InteractionCreate ex_env ex_admin_add])
      ex_env ex_message)) = [StepDelete, StepRateCheck, StepSend, StepMap]
   \<and> subseq (pipeline_steps (snd (on_messageCreate
        (run initial_state [InteractionCreate ex_env ex_admin_add]) ex_env ex_message)))
        [StepDelete, StepRateCheck, StepSend, StepMap]
   \<and> list_ex is_send_success (snd (on_messageCreate
        (run initial_state [InteractionCreate ex_env ex_admin_add]) ex_env ex_message))
   \<and> pipeline_steps (snd (al_on_messageCreate [''c1''] ex_al_state ex_env ex_message)) =
       [StepRateCheck, StepSend, StepDelete]"
proof -
  have b: "\<not> msg_author_bot ex_message"
    by (simp add: ex_defs)
  have r: "isRelayChannel (run initial_state [InteractionCreate ex_env ex_admin_add]) (msg_channelId ex_message)"
    by (simp add: ex_defs relay_defs db_defs on_interactionCreate_def)
  have a: "msg_channelId ex_message \<in> set [''c1'']"
    by (simp add: ex_defs)
  have e: "pipeline_steps (snd (on_messageCreate (run initial_state [InteractionCreate ex_env ex_admin_add])
      ex_env ex_message)) = [StepDelete, StepRateCheck, StepSend, StepMap]"
    by (simp add: ex_defs relay_defs db_defs on_interactionCreate_def steps_eval)
  have f: "pipeline_steps (snd (al_on_messageCreate [''c1''] ex_al_state ex_env ex_message)) =
       [StepRateCheck, StepSend, StepDelete]"
    by (simp add: ex_message_def ex_env_def ex_al_state_def al_on_messageCreate_def al_rate_gate_def
        sendWebhookMessage_def make_request_def truthy_def isUserRateLimited_def window_of_def
        RATE_LIMIT_MAX_def RATE_LIMIT_WINDOW_def db_defs steps_eval)
  from relay_pipeline_order_by_variant [OF b, of "run initial_state [InteractionCreate ex_env ex_admin_add]"
      ex_env "[''c1'']" ex_al_state] r a e f
  show ?thesis
    by simp
qed


section \<open>The channel gate\<close>

lemma on_messageDelete_present:
  "has_mapping s (msg_id m) \<Longrightarrow>
     (\<exists>creds relayed. snd (on_messageDelete s resolved m) =
        [WebhookDeleteMessage creds relayed resolved, DeleteMapping (msg_id m)])"
  by (auto simp: has_mapping_def on_messageDelete_def split: option.splits)

lemma on_messageUpdate_present:
  "has_mapping s (msg_id m) \<Longrightarrow> \<not> msg_author_bot m \<Longrightarrow>
     (\<exists>creds relayed. snd (on_messageUpdate s m) = [WebhookEditMessage creds relayed (msg_content m)])"
  by (auto simp: has_mapping_def on_messageUpdate_def split: option.splits)

text \<open>
  C5 (as amended).  A message created in a channel that is not relay-enabled causes no
  call and no change of any table.  Edit and delete events are not gated by the channel
  at all but by the mapping row of the message id: without a row they cause no call and
  no change; with a row the edit is mirrored through the stored webhook, and the delete
  is mirrored and the row removed, whether or not the channel is (still) relay-enabled.
\<close>

theorem gate_by_channel_on_create_by_mapping_on_edit_delete:
  "(\<not> isRelayChannel s (msg_channelId m) \<longrightarrow> on_messageCreate s env m = (s, []))
   \<and> (\<not> has_mapping s (msg_id m) \<longrightarrow>
        on_messageUpdate s m = (s, []) \<and> on_messageDelete s resolved m = (s, []))
   \<and> (has_mapping s (msg_id m) \<longrightarrow>
        (\<exists>creds relayed. snd (on_messageDelete s resolved m) =
            [WebhookDeleteMessage creds relayed resolved, DeleteMapping (msg_id m)])
        \<and> \<not> has_mapping (fst (on_messageDelete s resolved m)) (msg_id m)
        \<and> (\<not> msg_author_bot m \<longrightarrow>
            (\<exists>creds relayed. snd (on_messageUpdate s m) =
               [WebhookEditMessage creds relayed (msg_content m)])))"
  using on_messageDelete_present [of s m resolved] on_messageUpdate_present [of s m]
    on_messageDelete_removes [of s resolved m]
  by (auto simp: on_messageCreate_def on_messageUpdate_def on_messageDelete_def has_mapping_def)

text \<open>
  The claim as stated fails for edit and delete events: after channel \<open>c1\<close> was
  enabled, message \<open>m1\<close> relayed and the channel disabled again, a delete or edit event
  for \<open>m1\<close> still calls the webhook, and the delete changes \<^verbatim>\<open>message_map\<close>.
\<close>

theorem gate_by_channel_counterexample:
  "\<not> isRelayChannel (run initial_state
        [InteractionCreate ex_env ex_admin_add, MessageCreate ex_env ex_message,
         InteractionCreate ex_env ex_admin_remove]) (msg_channelId ex_message)
   \<and> relay_channels (run initial_state
        [InteractionCreate ex_env ex_admin_add, MessageCreate ex_env ex_message,
         InteractionCreate ex_env ex_admin_remove]) = []
   \<and> message_map (run initial_state
        [InteractionCreate ex_env ex_admin_add, MessageCreate ex_env ex_message,
         InteractionCreate ex_env ex_admin_remove]) =
       [(''m1'', \<lparr> webhookId = ''w1'', webhookToken = ''t1'', webhookMessageId = ''r1'',
                  channelId = ''c1'' \<rparr>)]
   \<and> snd (on_messageDelete (run initial_state
        [InteractionCreate ex_env ex_admin_add, MessageCreate ex_env ex_message,
         InteractionCreate ex_env ex_admin_remove]) True ex_message) =
       [WebhookDeleteMessage \<lparr> webhookId = ''w1'', webhookToken = ''t1'' \<rparr> ''r1'' True,
        DeleteMapping ''m1'']
   \<and> message_map (fst (on_messageDelete (run initial_state
        [InteractionCreate ex_env ex_admin_add, MessageCreate ex_env ex_message,
         InteractionCreate ex_env ex_admin_remove]) True ex_message)) = []
   \<and> snd (on_messageUpdate (run initial_state
        [InteractionCreate ex_env ex_admin_add, MessageCreate ex_env ex_message,
         InteractionCreate ex_env ex_admin_remove]) (ex_message\<lparr>msg_content := ''edited''\<rparr>)) =
       [WebhookEditMessage \<lparr> webhookId = ''w1'', webhookToken = ''t1'' \<rparr> ''r1'' ''edited'']"
  by (simp add: ex_defs ex_admin_remove_def relay_defs db_defs on_interactionCreate_def
      on_messageDelete_def on_messageUpdate_def)

theorem gate_by_channel_on_create_by_mapping_on_edit_delete_witness:
  "on_messageCreate initial_state ex_env ex_message = (initial_state, [])
   \<and> on_messageUpdate initial_state ex_message = (initial_state, [])
   \<and> on_messageDelete initial_state True ex_message = (initial_state, [])
   \<and> \<not> has_mapping (fst (on_messageDelete (run initial_state
        [InteractionCreate ex_env ex_admin_add, MessageCreate ex_env ex_message,
         InteractionCreate ex_env ex_admin_remove]) True ex_message)) (msg_id ex_message)"
proof -
  have g: "\<not> isRelayChannel initial_state (msg_channelId ex_message)"
    by (simp add: ex_defs relay_defs db_defs)
  have n: "\<not> has_mapping initial_state (msg_id ex_message)"
    by (simp add: ex_defs db_defs has_mapping_def)
  have h: "has_mapping (run initial_state
        [InteractionCreate ex_env ex_admin_add, MessageCreate ex_env ex_message,
         InteractionCreate ex_env ex_admin_remove]) (msg_id ex_message)"
    by (simp add: ex_defs ex_admin_remove_def relay_defs db_defs on_interactionCreate_def has_mapping_def)
  from g n h
    gate_by_channel_on_create_by_mapping_on_edit_delete [of initial_state ex_message ex_env True]
    gate_by_channel_on_create_by_mapping_on_edit_delete [of "run initial_state
        [InteractionCreate ex_env ex_admin_add, MessageCreate ex_env ex_message,
         InteractionCreate ex_env ex_admin_remove]" ex_message ex_env True]
  show ?thesis
    by blast
qed

section \<open>The webhook command\<close>

text \<open>
  C6.  In the multi-channel variant the \<^verbatim>\<open>/webhook\<close> command is not rate limited: for a
  non-administrator who already has three timestamps in the window, the command replies
  that the message is being sent and sends it, and records no timestamp, while the same
  user's organic message in the same state is stopped by the rate limiter.
\<close>

theorem webhook_command_skips_rate_limit:
  "snd (on_interactionCreate ex_busy_state ex_env ex_command) =
     [Reply Sending,
      WebhookSend \<lparr> webhookId = ''w1'', webhookToken = ''t1'' \<rparr>
        \<lparr> req_content = Some ''hi'', req_username = ''User'', req_avatarURL = ''u.png'',
          req_files = [] \<rparr> (Some ''r1'')]
   \<and> userMessageCounts (fst (on_interactionCreate ex_busy_state ex_env ex_command)) ''u1'' =
       Some [100, 200, 300]
   \<and> snd (on_messageCreate ex_busy_state ex_env ex_message) =
       [DeleteOriginal ''m1'' True, RateCheck ''u1'', DirectMessage ''u1'' TooFast]"
  by (simp add: ex_command_def ex_message_def ex_env_def ex_busy_state_def relay_defs db_defs
      on_interactionCreate_def)

text \<open>
  The allow-list variant does what the claim says: over the limit, the command answers
  with the private notice and sends nothing.
\<close>

lemma al_webhook_command_rate_limited:
  "snd (al_on_interactionCreate [''c1''] ex_busy_al_state ex_env ex_command) =
     [RateCheck ''u1'', Reply TooFast]"
  by (simp add: ex_command_def ex_env_def ex_busy_al_state_def al_on_interactionCreate_def
      al_rate_gate_def truthy_def isUserRateLimited_def window_of_def RATE_LIMIT_MAX_def
      RATE_LIMIT_WINDOW_def)

lemma al_webhook_command_limit:
  assumes "int_isCommand i" "int_commandName i = ''webhook''" "int_channelId i \<in> set ALLOWED_CHANNEL_IDS"
    "truthy (int_message i) \<or> int_attachment i \<noteq> None" "\<not> int_admin i"
    "fst (isUserRateLimited (al_userMessageCounts a) (int_user_id i) (env_now env))"
  shows "snd (al_on_interactionCreate ALLOWED_CHANNEL_IDS a env i) = [RateCheck (int_user_id i), Reply TooFast]"
  using assms by (auto simp: al_on_interactionCreate_def al_rate_gate_def split: prod.splits)

text \<open>
  C10.  The interaction handler leaves \<^verbatim>\<open>message_map\<close> as it is and never issues the
  insert, also when the webhook send succeeds; a message id without a row before the
  command has none after it, so its later edit or delete events are not mirrored.
\<close>

theorem webhook_command_saves_no_mapping:
  "message_map (fst (on_interactionCreate s env i)) = message_map s
   \<and> has_mapping (fst (on_interactionCreate s env i)) original = has_mapping s original
   \<and> InsertMapping original \<notin> set (snd (on_interactionCreate s env i))
   \<and> (\<not> has_mapping s (msg_id m) \<longrightarrow>
        snd (on_messageUpdate (fst (on_interactionCreate s env i)) m) = [] \<and>
        snd (on_messageDelete (fst (on_interactionCreate s env i)) resolved m) = [])"
proof -
  have 1: "message_map (fst (on_interactionCreate s env i)) = message_map s"
    by (simp add: on_interactionCreate_def split: option.splits prod.splits)
  have 2: "InsertMapping original \<notin> set (snd (on_interactionCreate s env i))"
    by (auto simp: on_interactionCreate_def split: option.splits prod.splits
        dest: sendWebhookMessage_no_insert)
  show ?thesis
    using 1 2 by (auto simp: has_mapping_def on_messageUpdate_def on_messageDelete_def)
qed

theorem webhook_command_saves_no_mapping_witness:
  "snd (on_interactionCreate ex_busy_state ex_env ex_command) =
     [Reply Sending,
      WebhookSend \<lparr> webhookId = ''w1'', webhookToken = ''t1'' \<rparr>
        \<lparr> req_content = Some ''hi'', req_username = ''User'', req_avatarURL = ''u.png'',
          req_files = [] \<rparr> (Some ''r1'')]
   \<and> message_map (fst (on_interactionCreate ex_busy_state ex_env ex_command)) = []
   \<and> snd (on_messageDelete (fst (on_interactionCreate ex_busy_state ex_env ex_command)) True
        (ex_message\<lparr>msg_id := ''r1''\<rparr>)) = []
   \<and> snd (on_messageUpdate (fst (on_interactionCreate ex_busy_state ex_env ex_command))
        (ex_message\<lparr>msg_id := ''r1''\<rparr>)) = []"
proof -
  have n: "\<not> has_mapping ex_busy_state (msg_id (ex_message\<lparr>msg_id := ''r1''\<rparr>))"
    by (simp add: has_mapping_def ex_busy_state_def db_get_def)
  have m: "message_map ex_busy_state = []"
    by (simp add: ex_busy_state_def)
  have e: "snd (on_interactionCreate ex_busy_state ex_env ex_command) =
     [Reply Sending,
      WebhookSend \<lparr> webhookId = ''w1'', webhookToken = ''t1'' \<rparr>
        \<lparr> req_content = Some ''hi'', req_username = ''User'', req_avatarURL = ''u.png'',
          req_files = [] \<rparr> (Some ''r1'')]"
    by (simp add: ex_command_def ex_env_def ex_busy_state_def on_interactionCreate_def
        sendWebhookMessage_def isRelayChannel_def make_request_def truthy_def db_defs)
  from n m e webhook_command_saves_no_mapping [of ex_busy_state ex_env ex_command "''r1''"
      "ex_message\<lparr>msg_id := ''r1''\<rparr>" True]
  show ?thesis
    by simp
qed


section \<open>Rotation\<close>

lemma db_get_update:
  "db_get (db_update tbl k v) k' =
     (if k' = k then (case db_get tbl k of None \<Rightarrow> None | Some old \<Rightarrow> Some v) else db_get tbl k')"
  by (induction tbl) (auto simp: db_get_def db_update_def)


lemma rotate_row_get:
  "db_get (fst (rotate_row answers tbl webhook)) channel =
     (if channel = fst webhook
      then (case db_get tbl channel of None \<Rightarrow> None | Some old \<Rightarrow> row_after_rotation (answers channel))
      else db_get tbl channel)"
  by (auto simp: rotate_row_def row_after_rotation_def db_get_update db_get_delete
      split: fetch_outcome.splits option.splits)

lemma rotate_rows_get:
  "db_get (fst (rotate_rows answers tbl allWebhooks)) channel =
     (if channel \<in> fst ` set allWebhooks
      then (case db_get tbl channel of None \<Rightarrow> None | Some old \<Rightarrow> row_after_rotation (answers channel))
      else db_get tbl channel)"
proof (induction allWebhooks arbitrary: tbl)
  case Nil
  then show ?case by simp
next
  case (Cons webhook allWebhooks)
  obtain tbl1 fx1 where r: "rotate_row answers tbl webhook = (tbl1, fx1)"
    by (cases "rotate_row answers tbl webhook")
  obtain tbl2 fx2 where q: "rotate_rows answers tbl1 allWebhooks = (tbl2, fx2)"
    by (cases "rotate_rows answers tbl1 allWebhooks")
  have g: "db_get tbl1 channel =
     (if channel = fst webhook
      then (case db_get tbl channel of None \<Rightarrow> None | Some old \<Rightarrow> row_after_rotation (answers channel))
      else db_get tbl channel)"
    using rotate_row_get [of answers tbl webhook channel] r by simp
  have "db_get tbl2 channel =
     (if channel \<in> fst ` set allWebhooks
      then (case db_get tbl1 channel of None \<Rightarrow> None | Some old \<Rightarrow> row_after_rotation (answers channel))
      else db_get tbl1 channel)"
    using Cons.IH [of tbl1] q by simp
  with g show ?case
    by (auto simp: r q split: option.splits)
qed

lemma rotate_row_fetched:
  "List.map_filter fetched_channel (snd (rotate_row answers tbl webhook)) = [fst webhook]"
  by (simp add: rotate_row_def map_filter_def split: fetch_outcome.splits option.splits)

lemma rotate_rows_fetched:
  "List.map_filter fetched_channel (snd (rotate_rows answers tbl allWebhooks)) = map fst allWebhooks"
proof (induction allWebhooks arbitrary: tbl)
  case Nil
  then show ?case by (simp add: map_filter_def)
next
  case (Cons webhook allWebhooks)
  have a: "List.map_filter fetched_channel (xs @ ys) =
      List.map_filter fetched_channel xs @ List.map_filter fetched_channel ys" for xs ys
    by (simp add: map_filter_def)
  obtain tbl1 fx1 where r: "rotate_row answers tbl webhook = (tbl1, fx1)"
    by (cases "rotate_row answers tbl webhook")
  obtain tbl2 fx2 where q: "rotate_rows answers tbl1 allWebhooks = (tbl2, fx2)"
    by (cases "rotate_rows answers tbl1 allWebhooks")
  have "List.map_filter fetched_channel fx1 = [fst webhook]"
    using rotate_row_fetched [of answers tbl webhook] r by simp
  moreover have "List.map_filter fetched_channel fx2 = map fst allWebhooks"
    using Cons.IH [of tbl1] q by simp
  ultimately show ?case
    by (simp add: a r q)
qed

lemma key_in_table: "(channel \<in> fst ` set tbl) = (db_get tbl channel \<noteq> None)"
  by (simp add: db_get_def map_of_eq_None_iff)

lemma rotateWebhooks_row_fate:
  "db_get (webhooks (fst (rotateWebhooks s answers stamp))) channel =
     (case db_get (webhooks s) channel of
        None \<Rightarrow> None
      | Some old \<Rightarrow>
          (case ro_fetch (answers channel) of
             FetchOk \<Rightarrow> ro_create (answers channel)
           | FetchNull \<Rightarrow> None
           | FetchThrows \<Rightarrow> None))
   \<and> List.map_filter fetched_channel (snd (rotateWebhooks s answers stamp)) = map fst (webhooks s)"
proof -
  have "db_get (webhooks (fst (rotateWebhooks s answers stamp))) channel =
     (case db_get (webhooks s) channel of None \<Rightarrow> None
      | Some old \<Rightarrow> row_after_rotation (answers channel))"
  proof (cases "webhooks s = []")
    case True
    then show ?thesis by (simp add: rotateWebhooks_def db_get_def)
  next
    case False
    then have "db_get (webhooks (fst (rotateWebhooks s answers stamp))) channel =
        db_get (fst (rotate_rows answers (webhooks s) (webhooks s))) channel"
      by (simp add: rotateWebhooks_def split: prod.splits)
    then show ?thesis
      by (simp add: rotate_rows_get key_in_table split: option.splits)
  qed
  moreover have "List.map_filter fetched_channel (snd (rotateWebhooks s answers stamp)) = map fst (webhooks s)"
  proof (cases "webhooks s = []")
    case True
    then show ?thesis by (simp add: rotateWebhooks_def map_filter_def)
  next
    case False
    then have "snd (rotateWebhooks s answers stamp) = snd (rotate_rows answers (webhooks s) (webhooks s))"
      by (simp add: rotateWebhooks_def split: prod.splits)
    then show ?thesis
      by (simp add: rotate_rows_fetched)
  qed
  ultimately show ?thesis
    by (simp add: row_after_rotation_def split: option.splits)
qed











section \<open>Token encryption\<close>

lemma encrypt_prefix: "prefix ENCRYPTED_TOKEN_PREFIX (encryptWebhookToken lib key iv token)"
  by (simp add: encryptWebhookToken_def split: prod.splits)

lemma roundtrip:
  assumes "crypto_contract lib" and "length iv = 12"
    and "utf8_decode lib (utf8_encode lib token) = token"
  shows "decryptWebhookToken lib key (encryptWebhookToken lib key iv token) = Inr token"
proof -
  obtain ciphertext authTag where e: "gcm_encrypt lib key iv (utf8_encode lib token) = (ciphertext, authTag)"
    by (cases "gcm_encrypt lib key iv (utf8_encode lib token)")
  from assms(1) e have t: "length authTag = 16"
    and d: "gcm_decrypt lib key iv authTag ciphertext = Some (utf8_encode lib token)"
    and b: "base64_decode lib (base64_encode lib (iv @ authTag @ ciphertext)) = iv @ authTag @ ciphertext"
    unfolding crypto_contract_def by (metis fst_conv snd_conv)+
  show ?thesis
    using assms(2,3) t d b e
    by (simp add: decryptWebhookToken_def encryptWebhookToken_def ENCRYPTED_TOKEN_PREFIX_def)
qed


lemma db_get_modify:
  "db_get (db_modify tbl k f) k' =
     (if k' = k then map_option f (db_get tbl k) else db_get tbl k')"
  by (induction tbl) (auto simp: db_get_def db_modify_def)

lemma enc_rotate_row_get:
  "db_get (fst (enc_rotate_row lib key ivs answers tbl webhook)) channel =
     (if channel = fst webhook
      then (case db_get tbl channel of
              None \<Rightarrow> None
            | Some current \<Rightarrow>
                enc_row_after_rotation lib key (snd (ivs channel)) (answers channel) (snd webhook))
      else db_get tbl channel)"
  by (auto simp: enc_rotate_row_def enc_resolve_token_def enc_row_after_rotation_def undecryptable_def
      db_get_update db_get_delete db_get_modify
      split: fetch_outcome.splits option.splits sum.splits)

lemma enc_rotate_rows_get:
  "distinct (map fst allWebhooks) \<Longrightarrow>
   db_get (fst (enc_rotate_rows lib key ivs answers tbl allWebhooks)) channel =
     (case map_of allWebhooks channel of
        None \<Rightarrow> db_get tbl channel
      | Some old \<Rightarrow>
          (case db_get tbl channel of
             None \<Rightarrow> None
           | Some current \<Rightarrow>
               enc_row_after_rotation lib key (snd (ivs channel)) (answers channel) old))"
proof (induction allWebhooks arbitrary: tbl)
  case Nil
  then show ?case by simp
next
  case (Cons webhook allWebhooks)
  obtain tbl1 fx1 where r: "enc_rotate_row lib key ivs answers tbl webhook = (tbl1, fx1)"
    by (cases "enc_rotate_row lib key ivs answers tbl webhook")
  obtain tbl2 fx2 where q: "enc_rotate_rows lib key ivs answers tbl1 allWebhooks = (tbl2, fx2)"
    by (cases "enc_rotate_rows lib key ivs answers tbl1 allWebhooks")
  from Cons.prems have d: "distinct (map fst allWebhooks)" and n: "map_of allWebhooks (fst webhook) = None"
    by (auto simp: map_of_eq_None_iff)
  have g: "db_get tbl1 channel =
     (if channel = fst webhook
      then (case db_get tbl channel of
              None \<Rightarrow> None
            | Some current \<Rightarrow>
                enc_row_after_rotation lib key (snd (ivs channel)) (answers channel) (snd webhook))
      else db_get tbl channel)"
    using enc_rotate_row_get [of lib key ivs answers tbl webhook channel] r by simp
  have h: "db_get tbl2 channel =
     (case map_of allWebhooks channel of
        None \<Rightarrow> db_get tbl1 channel
      | Some old \<Rightarrow>
          (case db_get tbl1 channel of
             None \<Rightarrow> None
           | Some current \<Rightarrow>
               enc_row_after_rotation lib key (snd (ivs channel)) (answers channel) old))"
    using Cons.IH [OF d, of tbl1] q by simp
  have t: "fst (enc_rotate_rows lib key ivs answers tbl (webhook # allWebhooks)) = tbl2"
    by (simp add: r q)
  have m: "map_of (webhook # allWebhooks) channel =
      (if channel = fst webhook then Some (snd webhook) else map_of allWebhooks channel)"
    by (cases webhook) simp
  show ?case
  proof (cases "channel = fst webhook")
    case True
    with g h n show ?thesis
      unfolding t m by simp
  next
    case False
    with g h show ?thesis
      unfolding t m by (simp split: option.splits)
  qed
qed

lemma enc_rotation_row_fate:
  assumes "distinct (map fst tbl)"
  shows "db_get (fst (enc_rotateWebhooks lib key ivs answers tbl)) channel =
     (case db_get tbl channel of
        None \<Rightarrow> None
      | Some old \<Rightarrow> enc_row_after_rotation lib key (snd (ivs channel)) (answers channel) old)"
proof (cases "tbl = []")
  case True
  then show ?thesis by (simp add: enc_rotateWebhooks_def db_get_def)
next
  case False
  then show ?thesis
    using enc_rotate_rows_get [OF assms, of lib key ivs answers tbl channel]
    by (simp add: enc_rotateWebhooks_def db_get_def split: option.splits)
qed

lemma decrypt_plaintext:
  "\<not> prefix ENCRYPTED_TOKEN_PREFIX storedToken \<Longrightarrow>
     decryptWebhookToken lib key storedToken = Inl (DecryptionError True)"
  by (simp add: decryptWebhookToken_def)

lemma enc_getOrCreateWebhook_plaintext:
  assumes "db_get tbl channel = Some row" and "\<not> prefix ENCRYPTED_TOKEN_PREFIX (webhookToken row)"
  shows "enc_getOrCreateWebhook lib key iv tbl channel final unknown =
     (Some row,
      db_update tbl channel (row\<lparr>webhookToken := encryptWebhookToken lib key iv (webhookToken row)\<rparr>),
      [])"
  using assms by (simp add: enc_getOrCreateWebhook_def decrypt_plaintext)


lemma enc_rotate_row_fetched:
  "List.map_filter fetched_channel (snd (enc_rotate_row lib key ivs answers tbl webhook)) = [fst webhook]"
  by (simp add: enc_rotate_row_def map_filter_def split: fetch_outcome.splits option.splits prod.splits)

lemma enc_rotate_rows_fetched:
  "List.map_filter fetched_channel (snd (enc_rotate_rows lib key ivs answers tbl allWebhooks)) =
     map fst allWebhooks"
proof (induction allWebhooks arbitrary: tbl)
  case Nil
  then show ?case by (simp add: map_filter_def)
next
  case (Cons webhook allWebhooks)
  have a: "List.map_filter fetched_channel (xs @ ys) =
      List.map_filter fetched_channel xs @ List.map_filter fetched_channel ys" for xs ys
    by (simp add: map_filter_def)
  obtain tbl1 fx1 where r: "enc_rotate_row lib key ivs answers tbl webhook = (tbl1, fx1)"
    by (cases "enc_rotate_row lib key ivs answers tbl webhook")
  obtain tbl2 fx2 where q: "enc_rotate_rows lib key ivs answers tbl1 allWebhooks = (tbl2, fx2)"
    by (cases "enc_rotate_rows lib key ivs answers tbl1 allWebhooks")
  have "List.map_filter fetched_channel fx1 = [fst webhook]"
    using enc_rotate_row_fetched [of lib key ivs answers tbl webhook] r by simp
  moreover have "List.map_filter fetched_channel fx2 = map fst allWebhooks"
    using Cons.IH [of tbl1] q by simp
  ultimately show ?case
    by (simp add: a r q)
qed

lemma enc_rotateWebhooks_fetched:
  "List.map_filter fetched_channel (snd (enc_rotateWebhooks lib key ivs answers tbl)) = map fst tbl"
proof (cases "tbl = []")
  case True
  then show ?thesis by (simp add: enc_rotateWebhooks_def map_filter_def)
next
  case False
  then show ?thesis by (simp add: enc_rotateWebhooks_def enc_rotate_rows_fetched)
qed

text \<open>
  C7 (as amended).  For a library that meets its contract, a 12-byte nonce and a token that
  survives UTF-8 encoding and decoding, decrypting the encryption of the token gives the
  token.  A stored value that does not start with \<^verbatim>\<open>enc:\<close> is not returned by
  \<^verbatim>\<open>decryptWebhookToken\<close>: the function raises \<^verbatim>\<open>DecryptionError\<close> with
  \<^verbatim>\<open>isPlaintext\<close> set, whatever the cipher is (so without calling it); its caller
  \<^verbatim>\<open>getOrCreateWebhook\<close> catches that error, hands out the stored row unchanged and
  re-encrypts the stored token in place.
\<close>

theorem token_roundtrip_and_plaintext_signal:
  assumes "crypto_contract lib" and "length iv = 12"
    and "utf8_decode lib (utf8_encode lib token) = token"
  shows "decryptWebhookToken lib key (encryptWebhookToken lib key iv token) = Inr token
     \<and> (\<not> prefix ENCRYPTED_TOKEN_PREFIX storedToken \<longrightarrow>
          (\<forall>lib' key'. decryptWebhookToken lib' key' storedToken = Inl (DecryptionError True))
        \<and> (\<forall>row. db_get tbl channel = Some row \<and> webhookToken row = storedToken \<longrightarrow>
             enc_getOrCreateWebhook lib key iv' tbl channel final unknown =
               (Some row,
                db_update tbl channel
                  (row\<lparr>webhookToken := encryptWebhookToken lib key iv' storedToken\<rparr>),
                [])))"
  using roundtrip [OF assms, of key] decrypt_plaintext [of storedToken]
    enc_getOrCreateWebhook_plaintext [of tbl channel _ lib key iv' final unknown]
  by auto

lemma ex_crypto_contract: "crypto_contract ex_crypto"
proof -
  have "length (take 16 (key @ iv @ replicate 16 (CHR ''#''))) = 16" for key iv :: buffer
    by (simp add: min_def)
  then show ?thesis
    by (simp add: crypto_contract_def ex_crypto_def)
qed

text \<open>
  The claim as stated fails: decrypting the plaintext value \<open>t1\<close> does not return
  \<open>t1\<close> but raises the error.
\<close>

theorem token_roundtrip_and_plaintext_signal_counterexample:
  "\<not> prefix ENCRYPTED_TOKEN_PREFIX ''t1''
   \<and> decryptWebhookToken ex_crypto ''key'' ''t1'' = Inl (DecryptionError True)
   \<and> decryptWebhookToken ex_crypto ''key'' ''t1'' \<noteq> Inr ''t1''"
  by (simp add: decryptWebhookToken_def ENCRYPTED_TOKEN_PREFIX_def)

theorem token_roundtrip_and_plaintext_signal_witness:
  "encryptWebhookToken ex_crypto ''key'' ''abcdefghijkl'' ''t1'' = ''enc:abcdefghijklkeyabcdefghijkl#1t''
   \<and> decryptWebhookToken ex_crypto ''key''
        (encryptWebhookToken ex_crypto ''key'' ''abcdefghijkl'' ''t1'') = Inr ''t1''
   \<and> decryptWebhookToken ex_crypto ''key'' ''t2'' = Inl (DecryptionError True)
   \<and> enc_getOrCreateWebhook ex_crypto ''key'' ''mnopqrstuvwx'' ex_enc_table ''c2'' None 0 =
       (Some \<lparr> webhookId = ''w2'', webhookToken = ''t2'' \<rparr>,
        [(''c1'', \<lparr> webhookId = ''w1'', webhookToken = ''enc:garbage'' \<rparr>),
         (''c2'', \<lparr> webhookId = ''w2'', webhookToken = ''enc:mnopqrstuvwxkeymnopqrstuvwx#2t'' \<rparr>)],
        [])"
proof -
  have l: "length ''abcdefghijkl'' = 12"
    by simp
  have u: "utf8_decode ex_crypto (utf8_encode ex_crypto ''t1'') = ''t1''"
    by (simp add: ex_crypto_def)
  have p: "\<not> prefix ENCRYPTED_TOKEN_PREFIX ''t2''"
    by (simp add: ENCRYPTED_TOKEN_PREFIX_def)
  have g: "db_get ex_enc_table ''c2'' = Some \<lparr> webhookId = ''w2'', webhookToken = ''t2'' \<rparr>
      \<and> webhookToken \<lparr> webhookId = ''w2'', webhookToken = ''t2'' \<rparr> = ''t2''"
    by (simp add: db_get_def ex_enc_table_def)
  have e: "encryptWebhookToken ex_crypto ''key'' ''abcdefghijkl'' ''t1'' = ''enc:abcdefghijklkeyabcdefghijkl#1t''"
    "encryptWebhookToken ex_crypto ''key'' ''mnopqrstuvwx'' ''t2'' = ''enc:mnopqrstuvwxkeymnopqrstuvwx#2t''"
    by (simp_all add: encryptWebhookToken_def ENCRYPTED_TOKEN_PREFIX_def ex_crypto_def)
  from token_roundtrip_and_plaintext_signal [OF ex_crypto_contract l u, of "''key''" "''t2''"
      ex_enc_table "''c2''" "''mnopqrstuvwx''" None 0] p g
  have "decryptWebhookToken ex_crypto ''key''
        (encryptWebhookToken ex_crypto ''key'' ''abcdefghijkl'' ''t1'') = Inr ''t1''"
    and "decryptWebhookToken ex_crypto ''key'' ''t2'' = Inl (DecryptionError True)"
    and "enc_getOrCreateWebhook ex_crypto ''key'' ''mnopqrstuvwx'' ex_enc_table ''c2'' None 0 =
       (Some \<lparr> webhookId = ''w2'', webhookToken = ''t2'' \<rparr>,
        db_update ex_enc_table ''c2''
          (\<lparr> webhookId = ''w2'', webhookToken = ''t2'' \<rparr>
             \<lparr>webhookToken := encryptWebhookToken ex_crypto ''key'' ''mnopqrstuvwx'' ''t2''\<rparr>),
        [])"
    by blast+
  then show ?thesis
    by (simp add: e db_update_def ex_enc_table_def)
qed

section \<open>The fate of a row in a rotation pass\<close>

text \<open>
  C8 (as amended).  After a rotation pass a channel's row is gone whenever a step of its
  turn threw: the channel could not be fetched (rejected, or resolved empty), creating
  the replacement webhook failed, or (encrypted variant) the stored token could not be
  decrypted; otherwise the row holds the replacement.  Only the failure to delete the old
  webhook is swallowed and changes nothing.  Every row of the table is visited, in order,
  whatever happened to the rows before it, and a row's fate depends on the answers for
  its own channel only.
\<close>

theorem rotation_row_fate:
  "db_get (webhooks (fst (rotateWebhooks s answers stamp))) channel =
     (case db_get (webhooks s) channel of
        None \<Rightarrow> None
      | Some old \<Rightarrow>
          (case ro_fetch (answers channel) of
             FetchOk \<Rightarrow> ro_create (answers channel)
           | FetchNull \<Rightarrow> None
           | FetchThrows \<Rightarrow> None))
   \<and> List.map_filter fetched_channel (snd (rotateWebhooks s answers stamp)) = map fst (webhooks s)
   \<and> (distinct (map fst tbl) \<longrightarrow>
        db_get (fst (enc_rotateWebhooks lib key ivs answers tbl)) channel =
          (case db_get tbl channel of
             None \<Rightarrow> None
           | Some old \<Rightarrow>
               (case ro_fetch (answers channel) of
                  FetchOk \<Rightarrow>
                    if undecryptable lib key (webhookToken old) then None
                    else (case ro_create (answers channel) of
                            None \<Rightarrow> None
                          | Some newWebhook \<Rightarrow>
                              Some (newWebhook\<lparr>webhookToken :=
                                encryptWebhookToken lib key (snd (ivs channel))
                                  (webhookToken newWebhook)\<rparr>))
                | FetchNull \<Rightarrow> None
                | FetchThrows \<Rightarrow> None)))
   \<and> List.map_filter fetched_channel (snd (enc_rotateWebhooks lib key ivs answers tbl)) = map fst tbl"
  using rotateWebhooks_row_fate [of s answers stamp channel]
    enc_rotation_row_fate [of tbl lib key ivs answers channel]
    enc_rotateWebhooks_fetched [of lib key ivs answers tbl]
  by (simp add: enc_row_after_rotation_def split: option.splits)

text \<open>
  The claim as stated fails: the channel \<open>c1\<close> is fetched, creating its replacement
  webhook fails, and its row is deleted.
\<close>

theorem rotation_row_fate_counterexample:
  "ro_fetch (ex_answers ''c1'') = FetchOk \<and> ro_create (ex_answers ''c1'') = None
   \<and> db_get (webhooks ex_rot_state) ''c1'' = Some \<lparr> webhookId = ''w1'', webhookToken = ''t1'' \<rparr>
   \<and> webhooks (fst (rotateWebhooks ex_rot_state ex_answers 5000)) =
        [(''c3'', \<lparr> webhookId = ''w9'', webhookToken = ''t9'' \<rparr>)]
   \<and> db_get (webhooks (fst (rotateWebhooks ex_rot_state ex_answers 5000))) ''c1'' = None"
  by (simp add: rotateWebhooks_def rotate_row_def ex_rot_state_def ex_answers_def db_defs)

theorem rotation_row_fate_witness:
  "db_get (webhooks (fst (rotateWebhooks ex_rot_state ex_answers 5000))) ''c1'' = None
   \<and> db_get (webhooks (fst (rotateWebhooks ex_rot_state ex_answers 5000))) ''c2'' = None
   \<and> db_get (webhooks (fst (rotateWebhooks ex_rot_state ex_answers 5000))) ''c3'' =
        Some \<lparr> webhookId = ''w9'', webhookToken = ''t9'' \<rparr>
   \<and> List.map_filter fetched_channel (snd (rotateWebhooks ex_rot_state ex_answers 5000)) =
        [''c1'', ''c2'', ''c3'']
   \<and> db_get (fst (enc_rotateWebhooks ex_crypto ''key'' ex_ivs ex_answers_ok ex_enc_table)) ''c1'' = None
   \<and> db_get (fst (enc_rotateWebhooks ex_crypto ''key'' ex_ivs ex_answers_ok ex_enc_table)) ''c2'' =
        Some \<lparr> webhookId = ''w9'', webhookToken = ''enc:mnopqrstuvwxkeymnopqrstuvwx#9t'' \<rparr>
   \<and> List.map_filter fetched_channel
        (snd (enc_rotateWebhooks ex_crypto ''key'' ex_ivs ex_answers_ok ex_enc_table)) = [''c1'', ''c2'']"
proof -
  have d: "distinct (map fst ex_enc_table)"
    by (simp add: ex_enc_table_def)
  have u: "undecryptable ex_crypto ''key'' ''enc:garbage''" "\<not> undecryptable ex_crypto ''key'' ''t2''"
    by (simp_all add: undecryptable_def decryptWebhookToken_def ENCRYPTED_TOKEN_PREFIX_def ex_crypto_def)
  have e: "encryptWebhookToken ex_crypto ''key'' ''mnopqrstuvwx'' ''t9'' = ''enc:mnopqrstuvwxkeymnopqrstuvwx#9t''"
    by (simp add: encryptWebhookToken_def ENCRYPTED_TOKEN_PREFIX_def ex_crypto_def)
  show ?thesis
    using d u e
      rotation_row_fate [where s = ex_rot_state and answers = ex_answers and stamp = 5000 and
        channel = "''c1''" and tbl = "[]"]
      rotation_row_fate [where s = ex_rot_state and answers = ex_answers and stamp = 5000 and
        channel = "''c2''" and tbl = "[]"]
      rotation_row_fate [where s = ex_rot_state and answers = ex_answers and stamp = 5000 and
        channel = "''c3''" and tbl = "[]"]
      rotation_row_fate [where s = initial_state and answers = ex_answers_ok and
        channel = "''c1''" and tbl = ex_enc_table and lib = ex_crypto and key = "''key''" and ivs = ex_ivs]
      rotation_row_fate [where s = initial_state and answers = ex_answers_ok and
        channel = "''c2''" and tbl = ex_enc_table and lib = ex_crypto and key = "''key''" and ivs = ex_ivs]
    by (simp add: ex_rot_state_def ex_answers_def ex_answers_ok_def ex_ivs_def ex_enc_table_def db_get_def)
qed

end
